theory Spec2Isabelle
  imports Complex_Main
begin

section \<open>The in-process rate limiter of \<^verbatim>\<open>app/cache.py\<close>\<close>

text \<open>
  \<^verbatim>\<open>rate_limit(limit, per, scope_func)\<close> keeps, on the application object, a dictionary
  from a key (the client's address, optionally followed by \<^verbatim>\<open>":"\<close> and a scope) to the
  list of the times of the requests it let through. Times are the readings of
  \<^verbatim>\<open>time.time()\<close>, idealised here as real numbers; the limit is a Python integer.
  \<^verbatim>\<open>abort(429)\<close> raises the framework's HTTP exception: the raise is the \<open>Inl\<close> branch
  of the result.
\<close>

type_synonym timestamp = real

type_synonym rate_limit_store = "string \<rightharpoonup> timestamp list"

datatype http_error = Abort nat

text \<open>
  \<^verbatim>\<open>key = request.remote_addr; if scope_func: key = f"{key}:{scope_func()}"\<close>.
  The second argument is \<open>None\<close> when no scope function is configured and otherwise the
  text of what the scope function returns.
\<close>

definition rate_key :: "string \<Rightarrow> string option \<Rightarrow> string" where
  "rate_key remote_addr scope =
     (case scope of None \<Rightarrow> remote_addr | Some s \<Rightarrow> remote_addr @ '':'' @ s)"

text \<open>\<^verbatim>\<open>[t for t in store[key] if current_time - t < per]\<close>\<close>

definition clean_up :: "real \<Rightarrow> timestamp \<Rightarrow> timestamp list \<Rightarrow> timestamp list" where
  "clean_up per current_time w = filter (\<lambda>t. current_time - t < per) w"

text \<open>The list stored under a key, read as empty where the key is absent.\<close>

definition window :: "rate_limit_store \<Rightarrow> string \<Rightarrow> timestamp list" where
  "window st key = (case st key of None \<Rightarrow> [] | Some w \<Rightarrow> w)"

text \<open>
  The block under \<^verbatim>\<open>with current_app._rate_limit_lock\<close>: the stored list is replaced by
  the cleaned one (an absent key gets the empty list), then the length is compared with
  the limit, and either \<^verbatim>\<open>abort(429)\<close> is raised or the current time is appended.
\<close>

definition locked_section ::
  "int \<Rightarrow> real \<Rightarrow> string \<Rightarrow> timestamp \<Rightarrow> rate_limit_store \<Rightarrow> http_error option \<times> rate_limit_store"
where
  "locked_section limit per key current_time st =
     (let st1 = (case st key of
                   Some w \<Rightarrow> st(key \<mapsto> clean_up per current_time w)
                 | None \<Rightarrow> st(key \<mapsto> []))
      in if limit \<le> int (length (window st1 key))
         then (Some (Abort 429), st1)
         else (None, st1(key \<mapsto> window st1 key @ [current_time])))"

text \<open>
  \<^verbatim>\<open>wrapped(*args, **kwargs)\<close>: the key is computed, the clock is read, the locked block
  runs, and only when it did not abort is the decorated function called. The decorated
  function takes its arguments and the state of the application and gives its result
  and the new state; its result type \<open>'r\<close> holds what it returns or raises (a sum where
  it can raise), and \<^verbatim>\<open>return f(*args, **kwargs)\<close> passes that on unchanged as \<open>Inr\<close>.
  \<open>Inl\<close> is a raise of the wrapper itself. The decorated function is taken not to
  touch the store of the limiter.
\<close>

definition wrapped ::
  "int \<Rightarrow> real \<Rightarrow> string option \<Rightarrow> ('a \<Rightarrow> 's \<Rightarrow> 'r \<times> 's) \<Rightarrow> 'a \<Rightarrow> string \<Rightarrow> timestamp
     \<Rightarrow> rate_limit_store \<Rightarrow> 's \<Rightarrow> (http_error + 'r) \<times> rate_limit_store \<times> 's"
where
  "wrapped limit per scope f args remote_addr current_time st s =
     (case locked_section limit per (rate_key remote_addr scope) current_time st of
        (Some e, st') \<Rightarrow> (Inl e, st', s)
      | (None, st') \<Rightarrow> (case f args s of (r, s') \<Rightarrow> (Inr r, st', s')))"

text \<open>
  A sequence of requests from one address, run one after the other on the shared store
  and the shared state. The list is in the order in which the locked blocks run; each
  request carries its arguments and the time that was read for it (the clock is read
  before the lock is taken). Every request is paired with its time in the output.
\<close>

fun run_wrapped ::
  "int \<Rightarrow> real \<Rightarrow> string option \<Rightarrow> ('a \<Rightarrow> 's \<Rightarrow> 'r \<times> 's) \<Rightarrow> string \<Rightarrow> ('a \<times> timestamp) list
     \<Rightarrow> rate_limit_store \<Rightarrow> 's \<Rightarrow> (timestamp \<times> (http_error + 'r)) list"
where
  "run_wrapped limit per scope f remote_addr [] st s = []"
| "run_wrapped limit per scope f remote_addr (c # cs) st s =
     (case wrapped limit per scope f (fst c) remote_addr (snd c) st s of
        (r, st', s') \<Rightarrow> (snd c, r) # run_wrapped limit per scope f remote_addr cs st' s')"

text \<open>The two outcomes of a request, and the times of the requests that were let through.\<close>

datatype status = Allowed | Rejected

fun outcome :: "http_error + 'r \<Rightarrow> status" where
  "outcome (Inl e) = Rejected"
| "outcome (Inr v) = Allowed"

definition allowed_times :: "(timestamp \<times> (http_error + 'r)) list \<Rightarrow> timestamp list" where
  "allowed_times rs = map fst (filter (\<lambda>p. outcome (snd p) = Allowed) rs)"

text \<open>
  Two predicates for the proof of the sliding-window bound. \<open>agrees\<close>: from time \<open>t0\<close> on,
  cleaning the stored list gives what cleaning the whole history of let-through times
  gives. \<open>spaced\<close>: any selection of the history whose members lie pairwise less than
  \<open>per\<close> apart has at most \<open>limit\<close> members.
\<close>

definition agrees :: "real \<Rightarrow> timestamp \<Rightarrow> timestamp list \<Rightarrow> timestamp list \<Rightarrow> bool" where
  "agrees per t0 w h = (\<forall>now. t0 \<le> now \<longrightarrow> clean_up per now w = clean_up per now h)"

definition spaced :: "int \<Rightarrow> real \<Rightarrow> timestamp list \<Rightarrow> bool" where
  "spaced limit per h =
     (\<forall>Q. (\<forall>t t'. Q t \<and> Q t' \<longrightarrow> t - t' < per) \<longrightarrow> int (length (filter Q h)) \<le> limit)"

section \<open>The task module \<^verbatim>\<open>app/celery.py\<close>\<close>

subsection \<open>Values, exceptions, log and state\<close>

text \<open>The Python values the handlers build: the result records are dictionaries in key order.\<close>

datatype pyval =
    PNone
  | PBool bool
  | PInt int
  | PStr string
  | PList "pyval list"
  | PDict "(string \<times> pyval) list"

fun dict_keys :: "pyval \<Rightarrow> string list" where
  "dict_keys (PDict kvs) = map fst kvs"
| "dict_keys v = []"

fun dict_get :: "pyval \<Rightarrow> string \<Rightarrow> pyval option" where
  "dict_get (PDict kvs) k = map_of kvs k"
| "dict_get v k = None"

text \<open>
  A raised exception with the text \<^verbatim>\<open>str(e)\<close> gives. \<^verbatim>\<open>except Exception\<close> catches
  the instances of \<^verbatim>\<open>Exception\<close> (\<open>PyException\<close>); \<^verbatim>\<open>KeyboardInterrupt\<close>,
  \<^verbatim>\<open>SystemExit\<close> and \<^verbatim>\<open>GeneratorExit\<close> derive from \<^verbatim>\<open>BaseException\<close> only
  (\<open>PyBaseException\<close>).
\<close>

datatype exn = PyException string | PyBaseException string

datatype logger = RootLogger | AppLogger

datatype level = WARNING | ERROR

type_synonym log_record = "logger \<times> level \<times> string"

text \<open>Times of the database rows and of \<^verbatim>\<open>datetime.utcnow()\<close>, in microseconds.\<close>

type_synonym datetime = int

definition timedelta_days :: "int \<Rightarrow> int" where
  "timedelta_days n = n * 86400000000"

datatype schedule = Seconds real | Crontab "(string \<times> int) list"

record user =
  user_id :: int
  first_name :: string
  last_name :: string
  email :: string

text \<open>
  The state the module acts on: the records logged so far, the two cached attributes
  \<^verbatim>\<open>_total_points\<close> and \<^verbatim>\<open>_points_given\<close> of the user objects (by user id), and the
  configuration of the task queue.
\<close>

record world =
  log_records :: "log_record list"
  total_points :: "int \<rightharpoonup> int"
  points_given :: "int \<rightharpoonup> int"
  celery_conf :: "(string \<times> pyval) list"
  context_task :: bool
  beat_schedule :: "(string \<times> string \<times> schedule) list"

text \<open>
  What the handlers call outside this module: the imports inside the function bodies,
  the ORM queries, the commit and the clock. Each call returns or raises; a raise is
  \<open>Some e\<close> or \<open>Inl e\<close>. \<^verbatim>\<open>scalar()\<close> returns \<^verbatim>\<open>None\<close> on an empty aggregate.
\<close>

record env =
  local_imports :: "exn option"
  users_by_role :: "string \<Rightarrow> exn + user list"
  sum_points_student :: "int \<Rightarrow> exn + int option"
  sum_points_teacher :: "int \<Rightarrow> exn + int option"
  session_commit :: "exn option"
  count_transactions :: "datetime \<Rightarrow> datetime \<Rightarrow> exn + int"
  sum_points_between :: "datetime \<Rightarrow> datetime \<Rightarrow> exn + int option"
  count_active_teachers :: "datetime \<Rightarrow> datetime \<Rightarrow> exn + int option"
  count_active_students :: "datetime \<Rightarrow> datetime \<Rightarrow> exn + int option"
  last_transaction :: "int \<Rightarrow> exn + datetime option"
  utcnow :: datetime
  isoformat :: "datetime \<Rightarrow> string"
  date_isoformat :: "datetime \<Rightarrow> string"

text \<open>\<^verbatim>\<open>x or 0\<close> on the result of \<^verbatim>\<open>scalar()\<close>: \<^verbatim>\<open>None\<close> and \<^verbatim>\<open>0\<close> both give \<^verbatim>\<open>0\<close>.\<close>

definition or0 :: "int option \<Rightarrow> int" where
  "or0 v = (case v of None \<Rightarrow> 0 | Some n \<Rightarrow> n)"

definition logging :: "logger \<Rightarrow> level \<Rightarrow> string \<Rightarrow> world \<Rightarrow> world" where
  "logging lg lv msg w = w\<lparr>log_records := log_records w @ [(lg, lv, msg)]\<rparr>"


subsection \<open>Import of the module and the fallback objects\<close>


text \<open>
  A function of the module: its arguments and the state in, its result and the state out.
  \<^verbatim>\<open>DummyCelery.task\<close> hands the function back with the attributes \<^verbatim>\<open>delay\<close> and
  \<^verbatim>\<open>apply_async\<close> set to lambdas that call it.
\<close>

type_synonym ('a, 's, 'r) pyfun = "'a \<Rightarrow> 's \<Rightarrow> 'r \<times> 's"

record ('a, 's, 'r) task_function =
  call :: "('a, 's, 'r) pyfun"
  delay :: "('a, 's, 'r) pyfun"
  apply_async :: "('a, 's, 'r) pyfun"

definition decorator :: "('a, 's, 'r) pyfun \<Rightarrow> ('a, 's, 'r) task_function" where
  "decorator f = \<lparr>call = f, delay = (\<lambda>args. f args), apply_async = (\<lambda>args. f args)\<rparr>"

text \<open>\<^verbatim>\<open>return decorator if not args else decorator(args[0])\<close>\<close>

definition DummyCelery_task ::
  "('a, 's, 'r) pyfun list
     \<Rightarrow> (('a, 's, 'r) pyfun \<Rightarrow> ('a, 's, 'r) task_function) + ('a, 's, 'r) task_function"
where
  "DummyCelery_task args = (case args of [] \<Rightarrow> Inl decorator | f # rest \<Rightarrow> Inr (decorator f))"

text \<open>The three methods of \<^verbatim>\<open>DummyTask\<close>, each \<^verbatim>\<open>return self.run(*args, **kwargs)\<close>.\<close>

definition DummyTask_call :: "('a, 's, 'r) pyfun \<Rightarrow> ('a, 's, 'r) pyfun" where
  "DummyTask_call run args = run args"

definition DummyTask_apply_async :: "('a, 's, 'r) pyfun \<Rightarrow> ('a, 's, 'r) pyfun" where
  "DummyTask_apply_async run args = run args"

definition DummyTask_delay :: "('a, 's, 'r) pyfun \<Rightarrow> ('a, 's, 'r) pyfun" where
  "DummyTask_delay run args = run args"

subsection \<open>\<^verbatim>\<open>init_celery\<close>\<close>


subsection \<open>The three task handlers\<close>

text \<open>The record every \<^verbatim>\<open>except Exception as e\<close> branch returns.\<close>

definition failure_record :: "string \<Rightarrow> pyval" where
  "failure_record msg = PDict [(''success'', PBool False), (''error'', PStr msg)]"

text \<open>
  What the clause \<^verbatim>\<open>except Exception as e\<close> makes of an exception raised in the
  \<^verbatim>\<open>try\<close> block, as the result of the handler: the failure record for an instance of
  \<^verbatim>\<open>Exception\<close>; any other exception is not caught and goes on to the caller.
\<close>

definition except_Exception :: "exn \<Rightarrow> exn + pyval" where
  "except_Exception e =
     (case e of
        PyException msg \<Rightarrow> Inr (failure_record msg)
      | PyBaseException msg \<Rightarrow> Inl (PyBaseException msg))"

text \<open>The two \<^verbatim>\<open>for\<close> loops of \<^verbatim>\<open>update_point_caches\<close>; a raising query ends the loop.\<close>

fun update_students :: "env \<Rightarrow> user list \<Rightarrow> world \<Rightarrow> exn option \<times> world" where
  "update_students db [] w = (None, w)"
| "update_students db (student # students) w =
     (case sum_points_student db (user_id student) of
        Inl e \<Rightarrow> (Some e, w)
      | Inr total' \<Rightarrow>
          update_students db students
            (w\<lparr>total_points := (total_points w)(user_id student \<mapsto> or0 total')\<rparr>))"

fun update_teachers :: "env \<Rightarrow> user list \<Rightarrow> world \<Rightarrow> exn option \<times> world" where
  "update_teachers db [] w = (None, w)"
| "update_teachers db (teacher # teachers) w =
     (case sum_points_teacher db (user_id teacher) of
        Inl e \<Rightarrow> (Some e, w)
      | Inr total' \<Rightarrow>
          update_teachers db teachers
            (w\<lparr>points_given := (points_given w)(user_id teacher \<mapsto> or0 total')\<rparr>))"

text \<open>The body of the \<^verbatim>\<open>try\<close> block of \<^verbatim>\<open>update_point_caches\<close>.\<close>

definition update_point_caches_try :: "env \<Rightarrow> world \<Rightarrow> (exn + pyval) \<times> world" where
  "update_point_caches_try db w =
     (case users_by_role db ''student'' of
        Inl e \<Rightarrow> (Inl e, w)
      | Inr students \<Rightarrow>
     (case update_students db students w of
        (Some e, w1) \<Rightarrow> (Inl e, w1)
      | (None, w1) \<Rightarrow>
     (case users_by_role db ''teacher'' of
        Inl e \<Rightarrow> (Inl e, w1)
      | Inr teachers \<Rightarrow>
     (case update_teachers db teachers w1 of
        (Some e, w2) \<Rightarrow> (Inl e, w2)
      | (None, w2) \<Rightarrow>
     (case session_commit db of
        Some e \<Rightarrow> (Inl e, w2)
      | None \<Rightarrow>
          (Inr (PDict [(''success'', PBool True),
                       (''timestamp'', PStr (isoformat db (utcnow db)))]), w2))))))"

text \<open>
  \<^verbatim>\<open>update_point_caches\<close>: the imports, then the \<^verbatim>\<open>try\<close> block, then the
  \<^verbatim>\<open>except Exception as e\<close> branch, whose message depends on \<^verbatim>\<open>CELERY_AVAILABLE\<close>.
\<close>

definition update_point_caches :: "bool \<Rightarrow> env \<Rightarrow> world \<Rightarrow> (exn + pyval) \<times> world" where
  "update_point_caches CELERY_AVAILABLE db w =
     (case local_imports db of
        Some e \<Rightarrow> (Inl e, w)
      | None \<Rightarrow>
     (case update_point_caches_try db w of
        (Inr r, w') \<Rightarrow> (Inr r, w')
      | (Inl (PyException msg), w') \<Rightarrow>
          (Inr (failure_record msg),
           logging RootLogger ERROR
             ((if CELERY_AVAILABLE then ''Error updating point caches: ''
               else ''Error updating point caches (running synchronously): '') @ msg) w')
      | (Inl (PyBaseException msg), w') \<Rightarrow> (Inl (PyBaseException msg), w')))"

text \<open>The body of the \<^verbatim>\<open>try\<close> block of \<^verbatim>\<open>generate_daily_statistics\<close>.\<close>

definition generate_daily_statistics_try :: "env \<Rightarrow> world \<Rightarrow> (exn + pyval) \<times> world" where
  "generate_daily_statistics_try db w =
     (let now = utcnow db; yesterday = now - timedelta_days 1 in
      case count_transactions db yesterday now of
        Inl e \<Rightarrow> (Inl e, w)
      | Inr transactions_count \<Rightarrow>
     (case sum_points_between db yesterday now of
        Inl e \<Rightarrow> (Inl e, w)
      | Inr points \<Rightarrow>
     (case count_active_teachers db yesterday now of
        Inl e \<Rightarrow> (Inl e, w)
      | Inr active_teachers \<Rightarrow>
     (case count_active_students db yesterday now of
        Inl e \<Rightarrow> (Inl e, w)
      | Inr active_students \<Rightarrow>
          (Inr (PDict [(''timestamp'', PStr (isoformat db now)),
                       (''date'', PStr (date_isoformat db yesterday)),
                       (''transactions_count'', PInt transactions_count),
                       (''total_points'', PInt (or0 points)),
                       (''active_teachers'', PInt (or0 active_teachers)),
                       (''active_students'', PInt (or0 active_students))]), w)))))"

definition generate_daily_statistics :: "env \<Rightarrow> world \<Rightarrow> (exn + pyval) \<times> world" where
  "generate_daily_statistics db w =
     (case local_imports db of
        Some e \<Rightarrow> (Inl e, w)
      | None \<Rightarrow>
     (case generate_daily_statistics_try db w of
        (Inr r, w') \<Rightarrow> (Inr r, w')
      | (Inl (PyException msg), w') \<Rightarrow>
          (Inr (failure_record msg),
           logging RootLogger ERROR (''Error generating daily statistics: '' @ msg) w')
      | (Inl (PyBaseException msg), w') \<Rightarrow> (Inl (PyBaseException msg), w')))"

text \<open>The loop of \<^verbatim>\<open>send_inactivity_notifications\<close> over the teachers.\<close>

fun inactive_teachers :: "env \<Rightarrow> datetime \<Rightarrow> user list \<Rightarrow> pyval list \<Rightarrow> exn + pyval list" where
  "inactive_teachers db threshold [] acc = Inr acc"
| "inactive_teachers db threshold (teacher # teachers) acc =
     (case last_transaction db (user_id teacher) of
        Inl e \<Rightarrow> Inl e
      | Inr last_tx \<Rightarrow>
          inactive_teachers db threshold teachers
            (if (case last_tx of None \<Rightarrow> True | Some created_at \<Rightarrow> created_at < threshold)
             then acc @ [PDict [(''id'', PInt (user_id teacher)),
                                (''name'', PStr (first_name teacher @ '' '' @ last_name teacher)),
                                (''email'', PStr (email teacher)),
                                (''last_activity'',
                                   (case last_tx of None \<Rightarrow> PNone
                                    | Some created_at \<Rightarrow> PStr (isoformat db created_at)))]]
             else acc))"

definition send_inactivity_notifications_try :: "env \<Rightarrow> world \<Rightarrow> (exn + pyval) \<times> world" where
  "send_inactivity_notifications_try db w =
     (let threshold = utcnow db - timedelta_days 7 in
      case users_by_role db ''teacher'' of
        Inl e \<Rightarrow> (Inl e, w)
      | Inr teachers \<Rightarrow>
     (case inactive_teachers db threshold teachers [] of
        Inl e \<Rightarrow> (Inl e, w)
      | Inr inactive \<Rightarrow>
          (Inr (PDict [(''inactive_teacher_count'', PInt (int (length inactive))),
                       (''teachers'', PList inactive)]), w)))"

definition send_inactivity_notifications :: "env \<Rightarrow> world \<Rightarrow> (exn + pyval) \<times> world" where
  "send_inactivity_notifications db w =
     (case local_imports db of
        Some e \<Rightarrow> (Inl e, w)
      | None \<Rightarrow>
     (case send_inactivity_notifications_try db w of
        (Inr r, w') \<Rightarrow> (Inr r, w')
      | (Inl (PyException msg), w') \<Rightarrow>
          (Inr (failure_record msg),
           logging RootLogger ERROR (''Error sending inactivity notifications: '' @ msg) w')
      | (Inl (PyBaseException msg), w') \<Rightarrow> (Inl (PyBaseException msg), w')))"

subsection \<open>A sample state and a sample database\<close>

text \<open>
  The state of a process that has logged nothing yet, and a database with one student
  and one teacher in which every query succeeds; the worked examples below change one
  field at a time.
\<close>

definition fresh_world :: world where
  "fresh_world = \<lparr>log_records = [], total_points = Map.empty, points_given = Map.empty,
     celery_conf = [], context_task = False, beat_schedule = []\<rparr>"

definition example_env :: env where
  "example_env = \<lparr>
     local_imports = None,
     users_by_role = (\<lambda>role.
        if role = ''student''
        then Inr [\<lparr>user_id = 1, first_name = ''Ann'', last_name = ''Lee'', email = ''ann@school''\<rparr>]
        else Inr [\<lparr>user_id = 2, first_name = ''Bo'', last_name = ''Roy'', email = ''bo@school''\<rparr>]),
     sum_points_student = (\<lambda>i. Inr (Some 15)),
     sum_points_teacher = (\<lambda>i. Inr None),
     session_commit = None,
     count_transactions = (\<lambda>since until. Inr 3),
     sum_points_between = (\<lambda>since until. Inr (Some 15)),
     count_active_teachers = (\<lambda>since until. Inr (Some 1)),
     count_active_students = (\<lambda>since until. Inr None),
     last_transaction = (\<lambda>i. Inr None),
     utcnow = 1704153900000000,
     isoformat = (\<lambda>t. ''2024-01-02T00:05:00''),
     date_isoformat = (\<lambda>t. ''2024-01-01'')\<rparr>"

section \<open>Properties of the rate limiter\<close>

subsection \<open>Cleaning and the locked block\<close>

lemma clean_up_append: "clean_up per now (xs @ ys) = clean_up per now xs @ clean_up per now ys"
  by (simp add: clean_up_def)

lemma clean_up_later:
  assumes "t \<le> now"
  shows "clean_up per now (clean_up per t w) = clean_up per now w"
proof -
  have "\<And>x. now - x < per \<Longrightarrow> t - x < per" using assms by linarith
  then show ?thesis unfolding clean_up_def filter_filter
    by (intro filter_cong) auto
qed

lemma spaced_Nil: "0 \<le> limit \<Longrightarrow> spaced limit per []"
  by (simp add: spaced_def)

lemma spaced_snoc:
  assumes h: "spaced limit per h" and lt: "int (length (clean_up per t h)) < limit"
  shows "spaced limit per (h @ [t])"
  unfolding spaced_def
proof (intro allI impI)
  fix Q :: "real \<Rightarrow> bool"
  assume Q: "\<forall>t t'. Q t \<and> Q t' \<longrightarrow> t - t' < per"
  show "int (length (filter Q (h @ [t]))) \<le> limit"
  proof (cases "Q t")
    case False
    then show ?thesis using h Q by (simp add: spaced_def)
  next
    case True
    have "filter Q h = filter Q (clean_up per t h)"
      unfolding clean_up_def filter_filter
      by (intro filter_cong) (use Q True in auto)
    then have "length (filter Q h) \<le> length (clean_up per t h)"
      by (metis length_filter_le)
    then show ?thesis using lt True by simp
  qed
qed

lemma locked_section_window:
  "window (snd (locked_section limit per key now st)) key =
     (if limit \<le> int (length (clean_up per now (window st key)))
      then clean_up per now (window st key)
      else clean_up per now (window st key) @ [now])"
  by (simp add: locked_section_def window_def Let_def clean_up_def split: option.splits)

lemma locked_section_fst:
  "fst (locked_section limit per key now st) =
     (if limit \<le> int (length (clean_up per now (window st key)))
      then Some (Abort 429) else None)"
  by (simp add: locked_section_def window_def Let_def clean_up_def split: option.splits)

lemma run_wrapped_spaced:
  assumes "0 \<le> limit"
  shows "sorted (map snd cs) \<Longrightarrow> \<forall>c \<in> set cs. t0 \<le> snd c \<Longrightarrow>
         agrees per t0 (window st (rate_key addr scope)) (w0 @ h) \<Longrightarrow> spaced limit per h \<Longrightarrow>
         spaced limit per (h @ allowed_times (run_wrapped limit per scope f addr cs st s))"
proof (induction cs arbitrary: st s h t0)
  case Nil
  then show ?case by (simp add: allowed_times_def)
next
  case (Cons c cs)
  let ?k = "rate_key addr scope"
  let ?t = "snd c"
  let ?w = "clean_up per ?t (window st ?k)"
  obtain e st' where ls: "locked_section limit per ?k ?t st = (e, st')"
    by (cases "locked_section limit per ?k ?t st")
  obtain r s' where fs: "f (fst c) s = (r, s')"
    by (cases "f (fst c) s")
  have t0: "t0 \<le> ?t" using Cons.prems(2) by simp
  have wh: "?w = clean_up per ?t (w0 @ h)" using Cons.prems(3) t0 by (simp add: agrees_def)
  have len: "length (clean_up per ?t h) \<le> length ?w"
    by (simp add: wh clean_up_append)
  have sorted': "sorted (map snd cs)" and later: "\<forall>c' \<in> set cs. ?t \<le> snd c'"
    using Cons.prems(1) by auto
  have e: "e = (if limit \<le> int (length ?w) then Some (Abort 429) else None)"
    using locked_section_fst [of limit per ?k ?t st] ls by simp
  have w': "window st' ?k = (if limit \<le> int (length ?w) then ?w else ?w @ [?t])"
    using locked_section_window [of limit per ?k ?t st] ls by simp
  have base: "agrees per ?t ?w (w0 @ h)"
    unfolding agrees_def
  proof (intro allI impI)
    fix now assume "?t \<le> now"
    then show "clean_up per now ?w = clean_up per now (w0 @ h)"
      using clean_up_later [of ?t now per "window st ?k"] Cons.prems(3) t0
      by (simp add: agrees_def)
  qed
  show ?case
  proof (cases "limit \<le> int (length ?w)")
    case True
    have "agrees per ?t (window st' ?k) (w0 @ h)" using base w' True by simp
    from Cons.IH [OF sorted' later this Cons.prems(4)]
    show ?thesis using ls e True by (simp add: wrapped_def allowed_times_def)
  next
    case False
    have a: "agrees per ?t (window st' ?k) (w0 @ (h @ [?t]))"
      using base w' False by (simp add: agrees_def clean_up_append)
    have s: "spaced limit per (h @ [?t])"
      using spaced_snoc [OF Cons.prems(4), of ?t] False len by simp
    from Cons.IH [OF sorted' later a s]
    show ?thesis using ls e fs False by (simp add: wrapped_def allowed_times_def)
  qed
qed

lemma spacedD:
  "spaced limit per h \<Longrightarrow> \<forall>t t'. Q t \<and> Q t' \<longrightarrow> t - t' < per \<Longrightarrow>
   int (length (filter Q h)) \<le> limit"
  unfolding spaced_def by (erule allE [of _ Q]) simp

lemma locked_section_other:
  "k' \<noteq> key \<Longrightarrow> snd (locked_section limit per key now st) k' = st k'"
  by (simp add: locked_section_def Let_def split: option.splits)

lemma locked_section_eq:
  "locked_section limit per key now st =
     (if limit \<le> int (length (clean_up per now (window st key)))
      then (Some (Abort 429), st(key \<mapsto> clean_up per now (window st key)))
      else (None, st(key \<mapsto> clean_up per now (window st key) @ [now])))"
  by (simp add: locked_section_def window_def Let_def clean_up_def split: option.splits)

subsection \<open>The claims about the rate limiter\<close>

text \<open>
  Claim C1, as the code has it. Requests from one address under one limit and one
  window length, whose locked blocks run in an order in which the times read for them
  never decrease, with a limit that is not negative and any store at the start: of the
  requests let through, at most \<open>limit\<close> have their times in any half-open interval of
  length \<open>per\<close>, \<open>(a, a + per]\<close> or \<open>[a, a + per)\<close>.
\<close>

theorem sliding_window_bound:
  assumes "0 \<le> limit" and "sorted (map snd cs)"
  shows "int (length (filter (\<lambda>t. a < t \<and> t \<le> a + per)
                 (allowed_times (run_wrapped limit per scope f addr cs st s)))) \<le> limit
       \<and> int (length (filter (\<lambda>t. a \<le> t \<and> t < a + per)
                 (allowed_times (run_wrapped limit per scope f addr cs st s)))) \<le> limit"
proof -
  let ?A = "allowed_times (run_wrapped limit per scope f addr cs st s)"
  have sp: "spaced limit per ?A"
  proof (cases cs)
    case Nil
    then show ?thesis using spaced_Nil [OF assms(1)] by (simp add: allowed_times_def)
  next
    case (Cons c cs')
    have lo: "\<forall>c' \<in> set cs. snd c \<le> snd c'" using assms(2) Cons by auto
    have ag: "agrees per (snd c) (window st (rate_key addr scope))
                (window st (rate_key addr scope) @ [])"
      by (simp add: agrees_def)
    from run_wrapped_spaced [OF assms(1) assms(2) lo ag spaced_Nil [OF assms(1)]]
    show ?thesis by simp
  qed
  have q1: "\<forall>t t'. (a < t \<and> t \<le> a + per) \<and> (a < t' \<and> t' \<le> a + per) \<longrightarrow> t - t' < per"
    by auto
  have q2: "\<forall>t t'. (a \<le> t \<and> t < a + per) \<and> (a \<le> t' \<and> t' < a + per) \<longrightarrow> t - t' < per"
    by auto
  have "int (length (filter (\<lambda>t. a < t \<and> t \<le> a + per) ?A)) \<le> limit"
    by (rule spacedD [OF sp q1])
  moreover have "int (length (filter (\<lambda>t. a \<le> t \<and> t < a + per) ?A)) \<le> limit"
    by (rule spacedD [OF sp q2])
  ultimately show ?thesis by simp
qed

text \<open>
  Four requests at times 100, 110, 120, 165 with limit 2 and window 60, on a store that
  already holds the time 95 for the key: only the first and the last are let through.
\<close>

theorem sliding_window_bound_witness:
  "(0::int) \<le> 2 \<and> sorted (map snd [((), 100::real), ((), 110), ((), 120), ((), 165)])
   \<and> allowed_times (run_wrapped 2 60 None (\<lambda>(x::unit) (n::nat). (x, Suc n)) ''10.0.0.1''
         [((), 100), ((), 110), ((), 120), ((), 165)] [''10.0.0.1'' \<mapsto> [95]] 0) = [100, 165]
   \<and> int (length (filter (\<lambda>t. 105 < t \<and> t \<le> 105 + 60)
        (allowed_times (run_wrapped 2 60 None (\<lambda>(x::unit) (n::nat). (x, Suc n)) ''10.0.0.1''
           [((), 100), ((), 110), ((), 120), ((), 165)] [''10.0.0.1'' \<mapsto> [95]] 0)))) \<le> 2
   \<and> int (length (filter (\<lambda>t. 105 \<le> t \<and> t < 105 + 60)
        (allowed_times (run_wrapped 2 60 None (\<lambda>(x::unit) (n::nat). (x, Suc n)) ''10.0.0.1''
           [((), 100), ((), 110), ((), 120), ((), 165)] [''10.0.0.1'' \<mapsto> [95]] 0)))) \<le> 2"
proof -
  have h1: "(0::int) \<le> 2" by simp
  have h2: "sorted (map snd [((), 100::real), ((), 110), ((), 120), ((), 165)])" by simp
  have v: "allowed_times (run_wrapped 2 60 None (\<lambda>(x::unit) (n::nat). (x, Suc n)) ''10.0.0.1''
         [((), 100), ((), 110), ((), 120), ((), 165)] [''10.0.0.1'' \<mapsto> [95]] 0) = [100, 165]"
    by (simp add: allowed_times_def wrapped_def locked_section_def rate_key_def
        window_def clean_up_def)
  from sliding_window_bound [OF h1 h2, where a = 105 and per = 60
      and f = "\<lambda>(x::unit) (n::nat). (x, Suc n)" and scope = None and addr = "''10.0.0.1''"
      and st = "[''10.0.0.1'' \<mapsto> [95]]" and s = 0] h1 h2 v
  show ?thesis by blast
qed

text \<open>
  Claim C1 as stated, read with a closed interval of length \<open>per\<close>, fails: with limit 1
  and window 60, the requests at times 0 and 60 are both let through, and both lie in
  \<open>[0, 60]\<close>.
\<close>

theorem closed_interval_counterexample:
  "allowed_times (run_wrapped 1 60 None (\<lambda>(x::unit) (n::nat). (x, Suc n)) ''10.0.0.1''
      [((), 0), ((), 60)] Map.empty 0) = [0, 60]
   \<and> \<not> int (length (filter (\<lambda>t. 0 \<le> t \<and> t \<le> 0 + 60)
        (allowed_times (run_wrapped 1 60 None (\<lambda>(x::unit) (n::nat). (x, Suc n)) ''10.0.0.1''
           [((), 0), ((), 60)] Map.empty 0)))) \<le> 1"
  by (simp add: allowed_times_def wrapped_def locked_section_def rate_key_def
      window_def clean_up_def)

text \<open>
  The two conditions of the bound are needed. The clock is read before the lock is
  taken, so the locked blocks can run in another order than the times read (and the
  clock itself can step back); then a purged time no longer counts: limit 2, window 60,
  locked blocks run with the times 0, 1, 100 and then 2 all let their requests through,
  three of them within \<open>[0, 60)\<close>. With a negative limit nothing is let through, and
  zero exceeds the limit.
\<close>

lemma readings_out_of_order_example:
  "allowed_times (run_wrapped 2 60 None (\<lambda>(x::unit) (n::nat). (x, Suc n)) ''10.0.0.1''
      [((), 0), ((), 1), ((), 100), ((), 2)] Map.empty 0) = [0, 1, 100, 2]"
  by (simp add: allowed_times_def wrapped_def locked_section_def rate_key_def
      window_def clean_up_def)

lemma negative_limit_example:
  "allowed_times (run_wrapped (- 1) 60 None (\<lambda>(x::unit) (n::nat). (x, Suc n)) ''10.0.0.1''
      [((), 0), ((), 100)] Map.empty 0) = []"
  by (simp add: allowed_times_def wrapped_def locked_section_def rate_key_def
      window_def clean_up_def)

text \<open>
  Claim C2. One check for a key: the stored list (empty if absent) is cleaned first; if
  the cleaned list has at least \<open>limit\<close> entries the request is rejected and the
  cleaned list is stored without the current time; otherwise the current time is
  appended to the cleaned list, the list is stored, and the request is let through.
\<close>

theorem check_functional:
  "locked_section limit per key now st =
     (if limit \<le> int (length (clean_up per now (window st key)))
      then (Some (Abort 429), st(key \<mapsto> clean_up per now (window st key)))
      else (None, st(key \<mapsto> clean_up per now (window st key) @ [now])))
   \<and> outcome (fst (wrapped limit per scope f args addr now st s)) =
     (if limit \<le> int (length (clean_up per now (window st (rate_key addr scope))))
      then Rejected else Allowed)
   \<and> fst (snd (wrapped limit per scope f args addr now st s)) =
     snd (locked_section limit per (rate_key addr scope) now st)"
  by (simp add: locked_section_eq wrapped_def split: prod.splits)

text \<open>A rejected request, an allowed one, and the first request for a key.\<close>

theorem check_functional_witness:
  "locked_section 2 60 ''10.0.0.1'' 100 [''10.0.0.1'' \<mapsto> [10, 50, 70]]
     = (Some (Abort 429), [''10.0.0.1'' \<mapsto> [50, 70]])
   \<and> locked_section 3 60 ''10.0.0.1'' 100 [''10.0.0.1'' \<mapsto> [10, 50, 70]]
     = (None, [''10.0.0.1'' \<mapsto> [50, 70, 100]])
   \<and> locked_section 3 60 ''10.0.0.1'' 100 Map.empty = (None, [''10.0.0.1'' \<mapsto> [100]])"
  using check_functional [where limit = 2 and per = 60 and key = "''10.0.0.1''" and now = 100
      and st = "[''10.0.0.1'' \<mapsto> [10, 50, 70]]" and scope = None
      and f = "\<lambda>(x::unit) (n::nat). (x, Suc n)" and args = "()" and addr = "''10.0.0.1''" and s = 0]
    check_functional [where limit = 3 and per = 60 and key = "''10.0.0.1''" and now = 100
      and st = "[''10.0.0.1'' \<mapsto> [10, 50, 70]]" and scope = None
      and f = "\<lambda>(x::unit) (n::nat). (x, Suc n)" and args = "()" and addr = "''10.0.0.1''" and s = 0]
    check_functional [where limit = 3 and per = 60 and key = "''10.0.0.1''" and now = 100
      and st = Map.empty and scope = None
      and f = "\<lambda>(x::unit) (n::nat). (x, Suc n)" and args = "()" and addr = "''10.0.0.1''" and s = 0]
  by (simp add: window_def clean_up_def)

text \<open>
  Claim C4 as stated fails: a rejected request does not come back as a status value,
  \<^verbatim>\<open>abort(429)\<close> is raised inside the locked block of the wrapper itself.
\<close>

theorem rejected_is_raised_counterexample:
  "(1::int) \<le> int (length (clean_up 60 1 (window [''10.0.0.1'' \<mapsto> [0]] (rate_key ''10.0.0.1'' None))))
   \<and> fst (wrapped 1 60 None
            (\<lambda>(x::unit) (n::nat). (Inr ''ok'' :: string + string, Suc n)) () ''10.0.0.1'' 1
            [''10.0.0.1'' \<mapsto> [0]] 0)
       = Inl (Abort 429)"
  by (simp add: wrapped_def locked_section_def rate_key_def window_def clean_up_def)

text \<open>
  Claim C4, as the code has it. A request is rejected exactly when the cleaned list has
  at least \<open>limit\<close> entries. Then the wrapper itself raises \<^verbatim>\<open>abort(429)\<close> from its
  locked block, the cleaned list is stored, and the decorated function is not called:
  the state it acts on is left as it was and the result does not depend on it.
  Otherwise the time is recorded, the decorated function is called once on the
  arguments, and the wrapper returns or raises what the function returns or raises.
\<close>

theorem rejected_is_abort_429:
  "wrapped limit per scope f args addr now st s =
     (if limit \<le> int (length (clean_up per now (window st (rate_key addr scope))))
      then (Inl (Abort 429),
            st(rate_key addr scope \<mapsto> clean_up per now (window st (rate_key addr scope))),
            s)
      else (Inr (fst (f args s)),
            st(rate_key addr scope \<mapsto> clean_up per now (window st (rate_key addr scope)) @ [now]),
            snd (f args s)))"
  by (simp add: locked_section_eq wrapped_def split: prod.splits)

text \<open>
  With limit 1 and one time stored, and a decorated function that counts its calls in
  the state: rejected one second later, with the count untouched; allowed sixty seconds
  later, whether the function returns or raises.
\<close>

theorem rejected_is_abort_429_witness:
  "wrapped 1 60 None (\<lambda>(x::unit) (n::nat). (Inr ''ok'' :: string + string, Suc n)) ()
       ''10.0.0.1'' 1 [''10.0.0.1'' \<mapsto> [0]] 0
     = (Inl (Abort 429), [''10.0.0.1'' \<mapsto> [0]], 0)
   \<and> wrapped 1 60 None (\<lambda>(x::unit) (n::nat). (Inr ''ok'' :: string + string, Suc n)) ()
       ''10.0.0.1'' 60 [''10.0.0.1'' \<mapsto> [0]] 0
     = (Inr (Inr ''ok''), [''10.0.0.1'' \<mapsto> [60]], 1)
   \<and> wrapped 1 60 None (\<lambda>(x::unit) (n::nat). (Inl ''ValueError'' :: string + string, Suc n)) ()
       ''10.0.0.1'' 60 [''10.0.0.1'' \<mapsto> [0]] 0
     = (Inr (Inl ''ValueError''), [''10.0.0.1'' \<mapsto> [60]], 1)"
  using rejected_is_abort_429 [where limit = 1 and per = 60 and scope = None
      and f = "\<lambda>(x::unit) (n::nat). (Inr ''ok'' :: string + string, Suc n)" and args = "()"
      and addr = "''10.0.0.1''" and now = 1 and st = "[''10.0.0.1'' \<mapsto> [0]]" and s = 0]
    rejected_is_abort_429 [where limit = 1 and per = 60 and scope = None
      and f = "\<lambda>(x::unit) (n::nat). (Inr ''ok'' :: string + string, Suc n)" and args = "()"
      and addr = "''10.0.0.1''" and now = 60 and st = "[''10.0.0.1'' \<mapsto> [0]]" and s = 0]
    rejected_is_abort_429 [where limit = 1 and per = 60 and scope = None
      and f = "\<lambda>(x::unit) (n::nat). (Inl ''ValueError'' :: string + string, Suc n)" and args = "()"
      and addr = "''10.0.0.1''" and now = 60 and st = "[''10.0.0.1'' \<mapsto> [0]]" and s = 0]
  by (simp add: rate_key_def window_def clean_up_def)

text \<open>
  Claim C5. When the list stored for a key has at least \<open>limit\<close> entries and none of
  them is expired at either of two calls, both calls are rejected and the store after
  them is the store before them.
\<close>

theorem rejection_idempotent:
  assumes "st key = Some w" and "limit \<le> int (length w)"
    and "\<forall>t \<in> set w. now1 - t < per \<and> now2 - t < per"
  shows "fst (locked_section limit per key now1 st) = Some (Abort 429)
       \<and> snd (locked_section limit per key now1 st) = st
       \<and> fst (locked_section limit per key now2 (snd (locked_section limit per key now1 st)))
           = Some (Abort 429)
       \<and> snd (locked_section limit per key now2 (snd (locked_section limit per key now1 st))) = st"
proof -
  have c1: "clean_up per now1 w = w" and c2: "clean_up per now2 w = w"
    using assms(3) by (simp_all add: clean_up_def)
  have u: "st(key \<mapsto> w) = st" using assms(1) by (rule map_upd_triv)
  have one: "locked_section limit per key now1 st = (Some (Abort 429), st)"
    using assms(1,2) c1 u by (simp add: locked_section_eq window_def)
  have two: "locked_section limit per key now2 st = (Some (Abort 429), st)"
    using assms(1,2) c2 u by (simp add: locked_section_eq window_def)
  show ?thesis by (simp add: one two)
qed

text \<open>Limit 2, two times stored, two calls at times 30 and 31.\<close>

theorem rejection_idempotent_witness:
  "[''10.0.0.1'' \<mapsto> [10, 20::real]] ''10.0.0.1'' = Some [10, 20]
   \<and> (2::int) \<le> int (length [10, 20::real])
   \<and> snd (locked_section 2 60 ''10.0.0.1'' 31
        (snd (locked_section 2 60 ''10.0.0.1'' 30 [''10.0.0.1'' \<mapsto> [10, 20]])))
      = [''10.0.0.1'' \<mapsto> [10, 20]]
   \<and> fst (locked_section 2 60 ''10.0.0.1'' 30 [''10.0.0.1'' \<mapsto> [10, 20]]) = Some (Abort 429)"
proof -
  have h1: "[''10.0.0.1'' \<mapsto> [10, 20::real]] ''10.0.0.1'' = Some [10, 20]" by simp
  have h2: "(2::int) \<le> int (length [10, 20::real])" by simp
  have h3: "\<forall>t \<in> set [10, 20::real]. 30 - t < 60 \<and> 31 - t < 60" by simp
  from rejection_idempotent [where st = "[''10.0.0.1'' \<mapsto> [10, 20]]" and key = "''10.0.0.1''"
      and w = "[10, 20]" and limit = 2 and ?now1.0 = 30 and ?now2.0 = 31 and per = 60, OF h1 h2 h3]
    h1 h2 show ?thesis by blast
qed

text \<open>
  Claim C6 as stated fails: a time exactly \<open>per\<close> seconds old is not strictly older than
  \<open>now - per\<close>, and yet it is purged.
\<close>

theorem exactly_per_old_counterexample:
  "(60::real) - 0 = 60 \<and> \<not> (0::real) < 60 - 60
   \<and> window (snd (locked_section 5 60 ''10.0.0.1'' 60 [''10.0.0.1'' \<mapsto> [0]])) ''10.0.0.1'' = [60]
   \<and> 0 \<notin> set (window (snd (locked_section 5 60 ''10.0.0.1'' 60 [''10.0.0.1'' \<mapsto> [0]])) ''10.0.0.1'')"
  by (simp add: locked_section_def window_def clean_up_def)

text \<open>
  Claim C6, as the code has it. A check at time \<open>now\<close> keeps exactly the stored times
  \<open>t\<close> with \<open>now - per < t\<close> and purges exactly those with \<open>t \<le> now - per\<close>, so a
  time exactly \<open>per\<close> seconds old is purged; the lists of the other keys are not touched.
\<close>

theorem purge_boundary:
  "window (snd (locked_section limit per key now st)) key =
     filter (\<lambda>t. now - per < t) (window st key)
       @ (if fst (locked_section limit per key now st) = None then [now] else [])
   \<and> set (window st key) - set (clean_up per now (window st key))
       = {t \<in> set (window st key). t \<le> now - per}
   \<and> (\<forall>k'. k' \<noteq> key \<longrightarrow> snd (locked_section limit per key now st) k' = st k')"
proof -
  have f: "clean_up per now (window st key) = filter (\<lambda>t. now - per < t) (window st key)"
    unfolding clean_up_def by (intro filter_cong) auto
  have a: "window (snd (locked_section limit per key now st)) key =
     filter (\<lambda>t. now - per < t) (window st key)
       @ (if fst (locked_section limit per key now st) = None then [now] else [])"
    using f by (simp add: locked_section_window locked_section_fst)
  have b: "set (window st key) - set (clean_up per now (window st key))
       = {t \<in> set (window st key). t \<le> now - per}"
    by (auto simp: f)
  show ?thesis using a b locked_section_other by blast
qed

text \<open>At time 100 with window 60, the times 10 and 40 go and 41 stays; key b is untouched.\<close>

theorem purge_boundary_witness:
  "window (snd (locked_section 5 60 ''a'' 100 [''a'' \<mapsto> [10, 40, 41], ''b'' \<mapsto> [1]])) ''a''
      = [41, 100]
   \<and> snd (locked_section 5 60 ''a'' 100 [''a'' \<mapsto> [10, 40, 41], ''b'' \<mapsto> [1]]) ''b'' = Some [1]"
proof -
  have ne: "''b'' \<noteq> ''a''" by simp
  have w: "window [''a'' \<mapsto> [10, 40, 41], ''b'' \<mapsto> [1::real]] ''a'' = [10, 40, 41]"
    by (simp add: window_def)
  have n: "fst (locked_section 5 60 ''a'' 100 [''a'' \<mapsto> [10, 40, 41], ''b'' \<mapsto> [1]]) = None"
    by (simp add: locked_section_def window_def clean_up_def)
  from purge_boundary [of 5 60 "''a''" 100 "[''a'' \<mapsto> [10, 40, 41], ''b'' \<mapsto> [1]]"]
  show ?thesis using ne w n by simp
qed

text \<open>
  Claim C9. With limit 0 every check is rejected, the first one on an empty list as
  well, and the stored list only ever loses entries: no time is appended.
\<close>

theorem limit_zero_rejects:
  "locked_section 0 per key now st
     = (Some (Abort 429), st(key \<mapsto> clean_up per now (window st key)))
   \<and> fst (wrapped 0 per scope f args addr now st s) = Inl (Abort 429)
   \<and> snd (snd (wrapped 0 per scope f args addr now st s)) = s
   \<and> length (window (snd (locked_section 0 per key now st)) key) \<le> length (window st key)
   \<and> (window st key = [] \<longrightarrow> window (snd (locked_section 0 per key now st)) key = [])"
  by (simp add: locked_section_eq wrapped_def window_def clean_up_def)

text \<open>The first request for a key under limit 0.\<close>

theorem limit_zero_rejects_witness:
  "locked_section 0 60 ''10.0.0.1'' 5 Map.empty = (Some (Abort 429), [''10.0.0.1'' \<mapsto> []])
   \<and> window Map.empty ''10.0.0.1'' = ([] :: real list)
   \<and> window (snd (locked_section 0 60 ''10.0.0.1'' 5 Map.empty)) ''10.0.0.1'' = []"
proof -
  have e: "window Map.empty ''10.0.0.1'' = ([] :: real list)" by (simp add: window_def)
  from limit_zero_rejects [where per = 60 and key = "''10.0.0.1''" and now = 5 and st = Map.empty
      and scope = None and f = "\<lambda>(x::unit) (n::nat). (x, Suc n)" and args = "()"
      and addr = "''10.0.0.1''" and s = 0] e
  show ?thesis by (simp add: clean_up_def window_def)
qed

section \<open>Properties of the task module\<close>

subsection \<open>The handlers, path by path\<close>

lemma update_point_caches_try_shape:
  "fst (update_point_caches_try db w) = Inr r \<Longrightarrow>
   r = PDict [(''success'', PBool True), (''timestamp'', PStr (isoformat db (utcnow db)))]"
  by (auto simp: update_point_caches_try_def split: sum.splits prod.splits option.splits)

lemma generate_daily_statistics_try_shape:
  "fst (generate_daily_statistics_try db w) = Inr r \<Longrightarrow>
   dict_keys r = [''timestamp'', ''date'', ''transactions_count'', ''total_points'',
                  ''active_teachers'', ''active_students'']"
  by (auto simp: generate_daily_statistics_try_def Let_def split: sum.splits)

lemma send_inactivity_notifications_try_shape:
  "fst (send_inactivity_notifications_try db w) = Inr r \<Longrightarrow>
   dict_keys r = [''inactive_teacher_count'', ''teachers'']"
  by (auto simp: send_inactivity_notifications_try_def Let_def split: sum.splits)

lemma update_point_caches_returns:
  "local_imports db = None \<Longrightarrow> fst (update_point_caches_try db w) = Inr r \<Longrightarrow>
   fst (update_point_caches av db w) = Inr r"
  by (cases "update_point_caches_try db w") (simp add: update_point_caches_def)

lemma update_point_caches_catches:
  "local_imports db = None \<Longrightarrow> fst (update_point_caches_try db w) = Inl (PyException msg) \<Longrightarrow>
   fst (update_point_caches av db w) = Inr (failure_record msg)"
  by (cases "update_point_caches_try db w") (simp add: update_point_caches_def)

lemma update_point_caches_propagates:
  "fst (update_point_caches av db w) = Inl e \<Longrightarrow>
   local_imports db = Some e \<or> (\<exists>msg. e = PyBaseException msg)"
  by (cases "update_point_caches_try db w")
     (auto simp: update_point_caches_def split: option.splits sum.splits exn.splits)

lemma generate_daily_statistics_returns:
  "local_imports db = None \<Longrightarrow> fst (generate_daily_statistics_try db w) = Inr r \<Longrightarrow>
   fst (generate_daily_statistics db w) = Inr r"
  by (cases "generate_daily_statistics_try db w") (simp add: generate_daily_statistics_def)

lemma generate_daily_statistics_catches:
  "local_imports db = None \<Longrightarrow> fst (generate_daily_statistics_try db w) = Inl (PyException msg) \<Longrightarrow>
   fst (generate_daily_statistics db w) = Inr (failure_record msg)"
  by (cases "generate_daily_statistics_try db w") (simp add: generate_daily_statistics_def)

lemma generate_daily_statistics_propagates:
  "fst (generate_daily_statistics db w) = Inl e \<Longrightarrow>
   local_imports db = Some e \<or> (\<exists>msg. e = PyBaseException msg)"
  by (cases "generate_daily_statistics_try db w")
     (auto simp: generate_daily_statistics_def split: option.splits sum.splits exn.splits)

lemma send_inactivity_notifications_returns:
  "local_imports db = None \<Longrightarrow> fst (send_inactivity_notifications_try db w) = Inr r \<Longrightarrow>
   fst (send_inactivity_notifications db w) = Inr r"
  by (cases "send_inactivity_notifications_try db w") (simp add: send_inactivity_notifications_def)

lemma send_inactivity_notifications_catches:
  "local_imports db = None \<Longrightarrow>
   fst (send_inactivity_notifications_try db w) = Inl (PyException msg) \<Longrightarrow>
   fst (send_inactivity_notifications db w) = Inr (failure_record msg)"
  by (cases "send_inactivity_notifications_try db w") (simp add: send_inactivity_notifications_def)

lemma send_inactivity_notifications_propagates:
  "fst (send_inactivity_notifications db w) = Inl e \<Longrightarrow>
   local_imports db = Some e \<or> (\<exists>msg. e = PyBaseException msg)"
  by (cases "send_inactivity_notifications_try db w")
     (auto simp: send_inactivity_notifications_def split: option.splits sum.splits exn.splits)

text \<open>
  Where a handler can raise: the loops stop at the first query that raises, and the
  \<^verbatim>\<open>try\<close> block raises what its first raising call raises.
\<close>

lemma update_students_raises:
  "\<forall>x \<in> set pre. \<exists>v. sum_points_student db (user_id x) = Inr v \<Longrightarrow>
   sum_points_student db (user_id u) = Inl e \<Longrightarrow>
   fst (update_students db (pre @ u # post) w) = Some e"
  by (induction pre arbitrary: w) auto

lemma update_students_passes:
  "\<forall>x \<in> set ss. \<exists>v. sum_points_student db (user_id x) = Inr v \<Longrightarrow>
   fst (update_students db ss w) = None"
  by (induction ss arbitrary: w) auto

lemma update_teachers_raises:
  "\<forall>x \<in> set pre. \<exists>v. sum_points_teacher db (user_id x) = Inr v \<Longrightarrow>
   sum_points_teacher db (user_id u) = Inl e \<Longrightarrow>
   fst (update_teachers db (pre @ u # post) w) = Some e"
  by (induction pre arbitrary: w) auto

lemma update_teachers_passes:
  "\<forall>x \<in> set ts. \<exists>v. sum_points_teacher db (user_id x) = Inr v \<Longrightarrow>
   fst (update_teachers db ts w) = None"
  by (induction ts arbitrary: w) auto

lemma inactive_teachers_raises:
  "\<forall>x \<in> set pre. \<exists>v. last_transaction db (user_id x) = Inr v \<Longrightarrow>
   last_transaction db (user_id u) = Inl e \<Longrightarrow>
   inactive_teachers db threshold (pre @ u # post) acc = Inl e"
  by (induction pre arbitrary: acc) auto

lemma update_point_caches_handles:
  "local_imports db = None \<Longrightarrow> fst (update_point_caches_try db w) = Inl e \<Longrightarrow>
   fst (update_point_caches av db w) = except_Exception e"
  by (cases "update_point_caches_try db w"; cases e)
     (simp_all add: update_point_caches_def except_Exception_def)

lemma generate_daily_statistics_handles:
  "local_imports db = None \<Longrightarrow> fst (generate_daily_statistics_try db w) = Inl e \<Longrightarrow>
   fst (generate_daily_statistics db w) = except_Exception e"
  by (cases "generate_daily_statistics_try db w"; cases e)
     (simp_all add: generate_daily_statistics_def except_Exception_def)

lemma send_inactivity_notifications_handles:
  "local_imports db = None \<Longrightarrow> fst (send_inactivity_notifications_try db w) = Inl e \<Longrightarrow>
   fst (send_inactivity_notifications db w) = except_Exception e"
  by (cases "send_inactivity_notifications_try db w"; cases e)
     (simp_all add: send_inactivity_notifications_def except_Exception_def)

lemma update_try_students_query:
  "users_by_role db ''student'' = Inl e \<Longrightarrow> fst (update_point_caches_try db w) = Inl e"
  by (simp add: update_point_caches_try_def)

lemma update_try_student_sum:
  assumes "users_by_role db ''student'' = Inr (pre @ u # post)"
    and "\<forall>x \<in> set pre. \<exists>v. sum_points_student db (user_id x) = Inr v"
    and "sum_points_student db (user_id u) = Inl e"
  shows "fst (update_point_caches_try db w) = Inl e"
proof -
  obtain w1 where "update_students db (pre @ u # post) w = (Some e, w1)"
    using update_students_raises [OF assms(2,3), of post w]
    by (cases "update_students db (pre @ u # post) w") simp
  then show ?thesis using assms(1) by (simp add: update_point_caches_try_def)
qed

lemma update_try_teachers_query:
  assumes "users_by_role db ''student'' = Inr ss"
    and "\<forall>x \<in> set ss. \<exists>v. sum_points_student db (user_id x) = Inr v"
    and "users_by_role db ''teacher'' = Inl e"
  shows "fst (update_point_caches_try db w) = Inl e"
proof -
  obtain w1 where "update_students db ss w = (None, w1)"
    using update_students_passes [OF assms(2), of w]
    by (cases "update_students db ss w") simp
  then show ?thesis using assms(1,3) by (simp add: update_point_caches_try_def)
qed

lemma update_try_teacher_sum:
  assumes "users_by_role db ''student'' = Inr ss"
    and "\<forall>x \<in> set ss. \<exists>v. sum_points_student db (user_id x) = Inr v"
    and "users_by_role db ''teacher'' = Inr (pre @ u # post)"
    and "\<forall>x \<in> set pre. \<exists>v. sum_points_teacher db (user_id x) = Inr v"
    and "sum_points_teacher db (user_id u) = Inl e"
  shows "fst (update_point_caches_try db w) = Inl e"
proof -
  obtain w1 where a: "update_students db ss w = (None, w1)"
    using update_students_passes [OF assms(2), of w]
    by (cases "update_students db ss w") simp
  obtain w2 where "update_teachers db (pre @ u # post) w1 = (Some e, w2)"
    using update_teachers_raises [OF assms(4,5), of post w1]
    by (cases "update_teachers db (pre @ u # post) w1") simp
  then show ?thesis using assms(1,3) a by (simp add: update_point_caches_try_def)
qed

lemma update_try_commit:
  assumes "users_by_role db ''student'' = Inr ss"
    and "\<forall>x \<in> set ss. \<exists>v. sum_points_student db (user_id x) = Inr v"
    and "users_by_role db ''teacher'' = Inr ts"
    and "\<forall>x \<in> set ts. \<exists>v. sum_points_teacher db (user_id x) = Inr v"
    and "session_commit db = Some e"
  shows "fst (update_point_caches_try db w) = Inl e"
proof -
  obtain w1 where a: "update_students db ss w = (None, w1)"
    using update_students_passes [OF assms(2), of w]
    by (cases "update_students db ss w") simp
  obtain w2 where "update_teachers db ts w1 = (None, w2)"
    using update_teachers_passes [OF assms(4), of w1]
    by (cases "update_teachers db ts w1") simp
  then show ?thesis using assms(1,3,5) a by (simp add: update_point_caches_try_def)
qed

lemma daily_try_count:
  "count_transactions db (utcnow db - timedelta_days 1) (utcnow db) = Inl e \<Longrightarrow>
   fst (generate_daily_statistics_try db w) = Inl e"
  by (simp add: generate_daily_statistics_try_def Let_def)

lemma daily_try_sum:
  "count_transactions db (utcnow db - timedelta_days 1) (utcnow db) = Inr n \<Longrightarrow>
   sum_points_between db (utcnow db - timedelta_days 1) (utcnow db) = Inl e \<Longrightarrow>
   fst (generate_daily_statistics_try db w) = Inl e"
  by (simp add: generate_daily_statistics_try_def Let_def)

lemma daily_try_teachers:
  "count_transactions db (utcnow db - timedelta_days 1) (utcnow db) = Inr n \<Longrightarrow>
   sum_points_between db (utcnow db - timedelta_days 1) (utcnow db) = Inr p \<Longrightarrow>
   count_active_teachers db (utcnow db - timedelta_days 1) (utcnow db) = Inl e \<Longrightarrow>
   fst (generate_daily_statistics_try db w) = Inl e"
  by (simp add: generate_daily_statistics_try_def Let_def)

lemma daily_try_students:
  "count_transactions db (utcnow db - timedelta_days 1) (utcnow db) = Inr n \<Longrightarrow>
   sum_points_between db (utcnow db - timedelta_days 1) (utcnow db) = Inr p \<Longrightarrow>
   count_active_teachers db (utcnow db - timedelta_days 1) (utcnow db) = Inr a \<Longrightarrow>
   count_active_students db (utcnow db - timedelta_days 1) (utcnow db) = Inl e \<Longrightarrow>
   fst (generate_daily_statistics_try db w) = Inl e"
  by (simp add: generate_daily_statistics_try_def Let_def)

lemma send_try_teachers_query:
  "users_by_role db ''teacher'' = Inl e \<Longrightarrow>
   fst (send_inactivity_notifications_try db w) = Inl e"
  by (simp add: send_inactivity_notifications_try_def Let_def)

lemma send_try_last_transaction:
  assumes "users_by_role db ''teacher'' = Inr (pre @ u # post)"
    and "\<forall>x \<in> set pre. \<exists>v. last_transaction db (user_id x) = Inr v"
    and "last_transaction db (user_id u) = Inl e"
  shows "fst (send_inactivity_notifications_try db w) = Inl e"
  using assms(1) inactive_teachers_raises [OF assms(2,3)]
  by (simp add: send_inactivity_notifications_try_def Let_def)

lemma update_point_caches_import_fails:
  "local_imports db = Some e \<Longrightarrow> fst (update_point_caches av db w) = Inl e"
  by (simp add: update_point_caches_def)

lemma generate_daily_statistics_import_fails:
  "local_imports db = Some e \<Longrightarrow> fst (generate_daily_statistics db w) = Inl e"
  by (simp add: generate_daily_statistics_def)

lemma send_inactivity_notifications_import_fails:
  "local_imports db = Some e \<Longrightarrow> fst (send_inactivity_notifications db w) = Inl e"
  by (simp add: send_inactivity_notifications_def)

lemma dict_get_absent: "k \<notin> set (dict_keys r) \<Longrightarrow> dict_get r k = None"
  by (cases r) (simp_all add: map_of_eq_None_iff)

subsection \<open>The claims about the task module\<close>

text \<open>
  Claim C3, as the code has it. In each of the three handlers, an exception raised by
  the imports that stand before the \<^verbatim>\<open>try\<close> block reaches the caller. An exception
  raised inside the \<^verbatim>\<open>try\<close> block, by any of its queries in turn or by the commit,
  goes to the clause \<^verbatim>\<open>except Exception\<close>: an instance of \<^verbatim>\<open>Exception\<close> becomes
  the record \<^verbatim>\<open>{'success': False, 'error': str(e)}\<close>, any other exception reaches the
  caller. So what a handler lets through was raised by the imports or is not an
  instance of \<^verbatim>\<open>Exception\<close>.
\<close>

theorem handler_exception_policy:
  "except_Exception (PyException msg) = Inr (PDict [(''success'', PBool False), (''error'', PStr msg)])
   \<and> except_Exception (PyBaseException msg) = Inl (PyBaseException msg)
   \<and> (local_imports db = Some e
      \<longrightarrow> fst (update_point_caches av db w) = Inl e)
   \<and> (local_imports db = Some e
      \<longrightarrow> fst (generate_daily_statistics db w) = Inl e)
   \<and> (local_imports db = Some e
      \<longrightarrow> fst (send_inactivity_notifications db w) = Inl e)
   \<and> (local_imports db = None
        \<and> users_by_role db ''student'' = Inl e
      \<longrightarrow> fst (update_point_caches av db w) = except_Exception e)
   \<and> (local_imports db = None
        \<and> users_by_role db ''student'' = Inr (pre @ u # post)
        \<and> (\<forall>x \<in> set pre. \<exists>v. sum_points_student db (user_id x) = Inr v)
        \<and> sum_points_student db (user_id u) = Inl e
      \<longrightarrow> fst (update_point_caches av db w) = except_Exception e)
   \<and> (local_imports db = None
        \<and> users_by_role db ''student'' = Inr ss
        \<and> (\<forall>x \<in> set ss. \<exists>v. sum_points_student db (user_id x) = Inr v)
        \<and> users_by_role db ''teacher'' = Inl e
      \<longrightarrow> fst (update_point_caches av db w) = except_Exception e)
   \<and> (local_imports db = None
        \<and> users_by_role db ''student'' = Inr ss
        \<and> (\<forall>x \<in> set ss. \<exists>v. sum_points_student db (user_id x) = Inr v)
        \<and> users_by_role db ''teacher'' = Inr (pre @ u # post)
        \<and> (\<forall>x \<in> set pre. \<exists>v. sum_points_teacher db (user_id x) = Inr v)
        \<and> sum_points_teacher db (user_id u) = Inl e
      \<longrightarrow> fst (update_point_caches av db w) = except_Exception e)
   \<and> (local_imports db = None
        \<and> users_by_role db ''student'' = Inr ss
        \<and> (\<forall>x \<in> set ss. \<exists>v. sum_points_student db (user_id x) = Inr v)
        \<and> users_by_role db ''teacher'' = Inr ts
        \<and> (\<forall>x \<in> set ts. \<exists>v. sum_points_teacher db (user_id x) = Inr v)
        \<and> session_commit db = Some e
      \<longrightarrow> fst (update_point_caches av db w) = except_Exception e)
   \<and> (local_imports db = None
        \<and> count_transactions db (utcnow db - timedelta_days 1) (utcnow db) = Inl e
      \<longrightarrow> fst (generate_daily_statistics db w) = except_Exception e)
   \<and> (local_imports db = None
        \<and> count_transactions db (utcnow db - timedelta_days 1) (utcnow db) = Inr n
        \<and> sum_points_between db (utcnow db - timedelta_days 1) (utcnow db) = Inl e
      \<longrightarrow> fst (generate_daily_statistics db w) = except_Exception e)
   \<and> (local_imports db = None
        \<and> count_transactions db (utcnow db - timedelta_days 1) (utcnow db) = Inr n
        \<and> sum_points_between db (utcnow db - timedelta_days 1) (utcnow db) = Inr p
        \<and> count_active_teachers db (utcnow db - timedelta_days 1) (utcnow db) = Inl e
      \<longrightarrow> fst (generate_daily_statistics db w) = except_Exception e)
   \<and> (local_imports db = None
        \<and> count_transactions db (utcnow db - timedelta_days 1) (utcnow db) = Inr n
        \<and> sum_points_between db (utcnow db - timedelta_days 1) (utcnow db) = Inr p
        \<and> count_active_teachers db (utcnow db - timedelta_days 1) (utcnow db) = Inr a
        \<and> count_active_students db (utcnow db - timedelta_days 1) (utcnow db) = Inl e
      \<longrightarrow> fst (generate_daily_statistics db w) = except_Exception e)
   \<and> (local_imports db = None
        \<and> users_by_role db ''teacher'' = Inl e
      \<longrightarrow> fst (send_inactivity_notifications db w) = except_Exception e)
   \<and> (local_imports db = None
        \<and> users_by_role db ''teacher'' = Inr (pre @ u # post)
        \<and> (\<forall>x \<in> set pre. \<exists>v. last_transaction db (user_id x) = Inr v)
        \<and> last_transaction db (user_id u) = Inl e
      \<longrightarrow> fst (send_inactivity_notifications db w) = except_Exception e)
   \<and> (local_imports db = None
        \<and> fst (update_point_caches_try db w) = Inl e
      \<longrightarrow> fst (update_point_caches av db w) = except_Exception e)
   \<and> (local_imports db = None
        \<and> fst (generate_daily_statistics_try db w) = Inl e
      \<longrightarrow> fst (generate_daily_statistics db w) = except_Exception e)
   \<and> (local_imports db = None
        \<and> fst (send_inactivity_notifications_try db w) = Inl e
      \<longrightarrow> fst (send_inactivity_notifications db w) = except_Exception e)
   \<and> (fst (update_point_caches av db w) = Inl e
      \<longrightarrow> local_imports db = Some e \<or> (\<exists>m. e = PyBaseException m))
   \<and> (fst (generate_daily_statistics db w) = Inl e
      \<longrightarrow> local_imports db = Some e \<or> (\<exists>m. e = PyBaseException m))
   \<and> (fst (send_inactivity_notifications db w) = Inl e
      \<longrightarrow> local_imports db = Some e \<or> (\<exists>m. e = PyBaseException m))"
proof -
  have h_x1: "except_Exception (PyException msg) = Inr (PDict [(''success'', PBool False), (''error'', PStr msg)])"
    by (simp add: except_Exception_def failure_record_def)
  have h_x2: "except_Exception (PyBaseException msg) = Inl (PyBaseException msg)"
    by (simp add: except_Exception_def)
  have h_iu: "(local_imports db = Some e
      \<longrightarrow> fst (update_point_caches av db w) = Inl e)"
    by (simp add: update_point_caches_import_fails)
  have h_ig: "(local_imports db = Some e
      \<longrightarrow> fst (generate_daily_statistics db w) = Inl e)"
    by (simp add: generate_daily_statistics_import_fails)
  have h_is: "(local_imports db = Some e
      \<longrightarrow> fst (send_inactivity_notifications db w) = Inl e)"
    by (simp add: send_inactivity_notifications_import_fails)
  have h_u1: "(local_imports db = None
        \<and> users_by_role db ''student'' = Inl e
      \<longrightarrow> fst (update_point_caches av db w) = except_Exception e)"
    by (blast intro: update_point_caches_handles update_try_students_query)
  have h_u2: "(local_imports db = None
        \<and> users_by_role db ''student'' = Inr (pre @ u # post)
        \<and> (\<forall>x \<in> set pre. \<exists>v. sum_points_student db (user_id x) = Inr v)
        \<and> sum_points_student db (user_id u) = Inl e
      \<longrightarrow> fst (update_point_caches av db w) = except_Exception e)"
    by (blast intro: update_point_caches_handles update_try_student_sum)
  have h_u3: "(local_imports db = None
        \<and> users_by_role db ''student'' = Inr ss
        \<and> (\<forall>x \<in> set ss. \<exists>v. sum_points_student db (user_id x) = Inr v)
        \<and> users_by_role db ''teacher'' = Inl e
      \<longrightarrow> fst (update_point_caches av db w) = except_Exception e)"
    by (blast intro: update_point_caches_handles update_try_teachers_query)
  have h_u4: "(local_imports db = None
        \<and> users_by_role db ''student'' = Inr ss
        \<and> (\<forall>x \<in> set ss. \<exists>v. sum_points_student db (user_id x) = Inr v)
        \<and> users_by_role db ''teacher'' = Inr (pre @ u # post)
        \<and> (\<forall>x \<in> set pre. \<exists>v. sum_points_teacher db (user_id x) = Inr v)
        \<and> sum_points_teacher db (user_id u) = Inl e
      \<longrightarrow> fst (update_point_caches av db w) = except_Exception e)"
    by (blast intro: update_point_caches_handles update_try_teacher_sum)
  have h_u5: "(local_imports db = None
        \<and> users_by_role db ''student'' = Inr ss
        \<and> (\<forall>x \<in> set ss. \<exists>v. sum_points_student db (user_id x) = Inr v)
        \<and> users_by_role db ''teacher'' = Inr ts
        \<and> (\<forall>x \<in> set ts. \<exists>v. sum_points_teacher db (user_id x) = Inr v)
        \<and> session_commit db = Some e
      \<longrightarrow> fst (update_point_caches av db w) = except_Exception e)"
    by (blast intro: update_point_caches_handles update_try_commit)
  have h_g1: "(local_imports db = None
        \<and> count_transactions db (utcnow db - timedelta_days 1) (utcnow db) = Inl e
      \<longrightarrow> fst (generate_daily_statistics db w) = except_Exception e)"
    by (blast intro: generate_daily_statistics_handles daily_try_count)
  have h_g2: "(local_imports db = None
        \<and> count_transactions db (utcnow db - timedelta_days 1) (utcnow db) = Inr n
        \<and> sum_points_between db (utcnow db - timedelta_days 1) (utcnow db) = Inl e
      \<longrightarrow> fst (generate_daily_statistics db w) = except_Exception e)"
    by (blast intro: generate_daily_statistics_handles daily_try_sum)
  have h_g3: "(local_imports db = None
        \<and> count_transactions db (utcnow db - timedelta_days 1) (utcnow db) = Inr n
        \<and> sum_points_between db (utcnow db - timedelta_days 1) (utcnow db) = Inr p
        \<and> count_active_teachers db (utcnow db - timedelta_days 1) (utcnow db) = Inl e
      \<longrightarrow> fst (generate_daily_statistics db w) = except_Exception e)"
    by (blast intro: generate_daily_statistics_handles daily_try_teachers)
  have h_g4: "(local_imports db = None
        \<and> count_transactions db (utcnow db - timedelta_days 1) (utcnow db) = Inr n
        \<and> sum_points_between db (utcnow db - timedelta_days 1) (utcnow db) = Inr p
        \<and> count_active_teachers db (utcnow db - timedelta_days 1) (utcnow db) = Inr a
        \<and> count_active_students db (utcnow db - timedelta_days 1) (utcnow db) = Inl e
      \<longrightarrow> fst (generate_daily_statistics db w) = except_Exception e)"
    by (blast intro: generate_daily_statistics_handles daily_try_students)
  have h_s1: "(local_imports db = None
        \<and> users_by_role db ''teacher'' = Inl e
      \<longrightarrow> fst (send_inactivity_notifications db w) = except_Exception e)"
    by (blast intro: send_inactivity_notifications_handles send_try_teachers_query)
  have h_s2: "(local_imports db = None
        \<and> users_by_role db ''teacher'' = Inr (pre @ u # post)
        \<and> (\<forall>x \<in> set pre. \<exists>v. last_transaction db (user_id x) = Inr v)
        \<and> last_transaction db (user_id u) = Inl e
      \<longrightarrow> fst (send_inactivity_notifications db w) = except_Exception e)"
    by (blast intro: send_inactivity_notifications_handles send_try_last_transaction)
  have h_tu: "(local_imports db = None
        \<and> fst (update_point_caches_try db w) = Inl e
      \<longrightarrow> fst (update_point_caches av db w) = except_Exception e)"
    by (blast intro: update_point_caches_handles)
  have h_tg: "(local_imports db = None
        \<and> fst (generate_daily_statistics_try db w) = Inl e
      \<longrightarrow> fst (generate_daily_statistics db w) = except_Exception e)"
    by (blast intro: generate_daily_statistics_handles)
  have h_ts: "(local_imports db = None
        \<and> fst (send_inactivity_notifications_try db w) = Inl e
      \<longrightarrow> fst (send_inactivity_notifications db w) = except_Exception e)"
    by (blast intro: send_inactivity_notifications_handles)
  have h_cu: "(fst (update_point_caches av db w) = Inl e
      \<longrightarrow> local_imports db = Some e \<or> (\<exists>m. e = PyBaseException m))"
    by (blast dest: update_point_caches_propagates)
  have h_cg: "(fst (generate_daily_statistics db w) = Inl e
      \<longrightarrow> local_imports db = Some e \<or> (\<exists>m. e = PyBaseException m))"
    by (blast dest: generate_daily_statistics_propagates)
  have h_cs: "(fst (send_inactivity_notifications db w) = Inl e
      \<longrightarrow> local_imports db = Some e \<or> (\<exists>m. e = PyBaseException m))"
    by (blast dest: send_inactivity_notifications_propagates)
  show ?thesis
    using h_x1 h_x2 h_iu h_ig h_is h_u1 h_u2 h_u3 h_u4 h_u5 h_g1 h_g2 h_g3 h_g4 h_s1 h_s2 h_tu h_tg h_ts h_cu h_cg h_cs
    by (intro conjI) assumption+
qed

text \<open>
  On the sample database: failing imports reach the caller; each query and the commit,
  failing in turn with an instance of \<^verbatim>\<open>Exception\<close>, give the failure record; a
  \<^verbatim>\<open>SystemExit\<close> raised by the commit or by a query is passed on.
\<close>

theorem handler_exception_policy_witness:
  "fst (update_point_caches False (example_env\<lparr>local_imports := Some (PyException ''ImportError'')\<rparr>) fresh_world)
     = Inl (PyException ''ImportError'')
   \<and> fst (generate_daily_statistics (example_env\<lparr>local_imports := Some (PyException ''ImportError'')\<rparr>) fresh_world)
     = Inl (PyException ''ImportError'')
   \<and> fst (send_inactivity_notifications (example_env\<lparr>local_imports := Some (PyException ''ImportError'')\<rparr>) fresh_world)
     = Inl (PyException ''ImportError'')
   \<and> fst (update_point_caches False (example_env\<lparr>users_by_role := (\<lambda>role. Inl (PyException ''db down''))\<rparr>) fresh_world)
     = Inr (PDict [(''success'', PBool False), (''error'', PStr ''db down'')])
   \<and> fst (update_point_caches False (example_env\<lparr>sum_points_student := (\<lambda>i. Inl (PyException ''db down''))\<rparr>) fresh_world)
     = Inr (PDict [(''success'', PBool False), (''error'', PStr ''db down'')])
   \<and> fst (update_point_caches False (example_env\<lparr>users_by_role := (\<lambda>role. if role = ''student'' then Inr [\<lparr>user_id = 1, first_name = ''Ann'', last_name = ''Lee'', email = ''ann@school''\<rparr>] else Inl (PyException ''db down''))\<rparr>) fresh_world)
     = Inr (PDict [(''success'', PBool False), (''error'', PStr ''db down'')])
   \<and> fst (update_point_caches False (example_env\<lparr>sum_points_teacher := (\<lambda>i. Inl (PyException ''db down''))\<rparr>) fresh_world)
     = Inr (PDict [(''success'', PBool False), (''error'', PStr ''db down'')])
   \<and> fst (update_point_caches False (example_env\<lparr>session_commit := Some (PyException ''db down'')\<rparr>) fresh_world)
     = Inr (PDict [(''success'', PBool False), (''error'', PStr ''db down'')])
   \<and> fst (generate_daily_statistics (example_env\<lparr>count_transactions := (\<lambda>since until. Inl (PyException ''db down''))\<rparr>) fresh_world)
     = Inr (PDict [(''success'', PBool False), (''error'', PStr ''db down'')])
   \<and> fst (generate_daily_statistics (example_env\<lparr>sum_points_between := (\<lambda>since until. Inl (PyException ''db down''))\<rparr>) fresh_world)
     = Inr (PDict [(''success'', PBool False), (''error'', PStr ''db down'')])
   \<and> fst (generate_daily_statistics (example_env\<lparr>count_active_teachers := (\<lambda>since until. Inl (PyException ''db down''))\<rparr>) fresh_world)
     = Inr (PDict [(''success'', PBool False), (''error'', PStr ''db down'')])
   \<and> fst (generate_daily_statistics (example_env\<lparr>count_active_students := (\<lambda>since until. Inl (PyException ''db down''))\<rparr>) fresh_world)
     = Inr (PDict [(''success'', PBool False), (''error'', PStr ''db down'')])
   \<and> fst (send_inactivity_notifications (example_env\<lparr>users_by_role := (\<lambda>role. Inl (PyException ''db down''))\<rparr>) fresh_world)
     = Inr (PDict [(''success'', PBool False), (''error'', PStr ''db down'')])
   \<and> fst (send_inactivity_notifications (example_env\<lparr>last_transaction := (\<lambda>i. Inl (PyException ''db down''))\<rparr>) fresh_world)
     = Inr (PDict [(''success'', PBool False), (''error'', PStr ''db down'')])
   \<and> fst (update_point_caches True (example_env\<lparr>session_commit := Some (PyBaseException ''SystemExit'')\<rparr>) fresh_world)
     = Inl (PyBaseException ''SystemExit'')
   \<and> fst (generate_daily_statistics (example_env\<lparr>count_transactions := (\<lambda>since until. Inl (PyBaseException ''SystemExit''))\<rparr>) fresh_world)
     = Inl (PyBaseException ''SystemExit'')
   \<and> fst (send_inactivity_notifications (example_env\<lparr>last_transaction := (\<lambda>i. Inl (PyBaseException ''SystemExit''))\<rparr>) fresh_world)
     = Inl (PyBaseException ''SystemExit'')
   \<and> fst (update_point_caches False (example_env\<lparr>session_commit := Some (PyException ''db down'')\<rparr>) fresh_world)
     = Inr (PDict [(''success'', PBool False), (''error'', PStr ''db down'')])
   \<and> fst (generate_daily_statistics (example_env\<lparr>count_transactions := (\<lambda>since until. Inl (PyException ''db down''))\<rparr>) fresh_world)
     = Inr (PDict [(''success'', PBool False), (''error'', PStr ''db down'')])
   \<and> fst (send_inactivity_notifications (example_env\<lparr>last_transaction := (\<lambda>i. Inl (PyException ''db down''))\<rparr>) fresh_world)
     = Inr (PDict [(''success'', PBool False), (''error'', PStr ''db down'')])
   \<and> (local_imports (example_env\<lparr>session_commit := Some (PyBaseException ''SystemExit'')\<rparr>) = Some (PyBaseException ''SystemExit'') \<or> (\<exists>m. (PyBaseException ''SystemExit'') = PyBaseException m))
   \<and> (local_imports (example_env\<lparr>count_transactions := (\<lambda>since until. Inl (PyBaseException ''SystemExit''))\<rparr>) = Some (PyBaseException ''SystemExit'') \<or> (\<exists>m. (PyBaseException ''SystemExit'') = PyBaseException m))
   \<and> (local_imports (example_env\<lparr>last_transaction := (\<lambda>i. Inl (PyBaseException ''SystemExit''))\<rparr>) = Some (PyBaseException ''SystemExit'') \<or> (\<exists>m. (PyBaseException ''SystemExit'') = PyBaseException m))"
proof -
  have r0: "fst (update_point_caches False (example_env\<lparr>local_imports := Some (PyException ''ImportError'')\<rparr>) fresh_world)
     = Inl (PyException ''ImportError'')"
  proof -
    have hyp: "local_imports (example_env\<lparr>local_imports := Some (PyException ''ImportError'')\<rparr>) = Some (PyException ''ImportError'')"
      by (simp add: example_env_def update_point_caches_def update_point_caches_try_def
          generate_daily_statistics_def generate_daily_statistics_try_def
          send_inactivity_notifications_def send_inactivity_notifications_try_def Let_def)
    have imp: "(local_imports (example_env\<lparr>local_imports := Some (PyException ''ImportError'')\<rparr>) = Some (PyException ''ImportError''))
        \<longrightarrow> fst (update_point_caches False (example_env\<lparr>local_imports := Some (PyException ''ImportError'')\<rparr>) fresh_world) = Inl (PyException ''ImportError'')"
      using handler_exception_policy [where db = "(example_env\<lparr>local_imports := Some (PyException ''ImportError'')\<rparr>)"
          and w = fresh_world
          and e = "(PyException ''ImportError'')"
          and msg = "''db down''"
          and av = False
          and pre = "([]::user list)"
          and u = "\<lparr>user_id = 1, first_name = ''Ann'', last_name = ''Lee'', email = ''ann@school''\<rparr>"
          and post = "[]"
          and ss = "[\<lparr>user_id = 1, first_name = ''Ann'', last_name = ''Lee'', email = ''ann@school''\<rparr>]"
          and ts = "[\<lparr>user_id = 2, first_name = ''Bo'', last_name = ''Roy'', email = ''bo@school''\<rparr>]"
          and n = 3
          and p = "(Some 15)"
          and a = "(Some 1)"]
      by (elim conjE) assumption
    from imp hyp have "fst (update_point_caches False (example_env\<lparr>local_imports := Some (PyException ''ImportError'')\<rparr>) fresh_world) = Inl (PyException ''ImportError'')" by (rule mp)
    then show ?thesis by (simp add: except_Exception_def failure_record_def)
  qed
  have r1: "fst (generate_daily_statistics (example_env\<lparr>local_imports := Some (PyException ''ImportError'')\<rparr>) fresh_world)
     = Inl (PyException ''ImportError'')"
  proof -
    have hyp: "local_imports (example_env\<lparr>local_imports := Some (PyException ''ImportError'')\<rparr>) = Some (PyException ''ImportError'')"
      by (simp add: example_env_def update_point_caches_def update_point_caches_try_def
          generate_daily_statistics_def generate_daily_statistics_try_def
          send_inactivity_notifications_def send_inactivity_notifications_try_def Let_def)
    have imp: "(local_imports (example_env\<lparr>local_imports := Some (PyException ''ImportError'')\<rparr>) = Some (PyException ''ImportError''))
        \<longrightarrow> fst (generate_daily_statistics (example_env\<lparr>local_imports := Some (PyException ''ImportError'')\<rparr>) fresh_world) = Inl (PyException ''ImportError'')"
      using handler_exception_policy [where db = "(example_env\<lparr>local_imports := Some (PyException ''ImportError'')\<rparr>)"
          and w = fresh_world
          and e = "(PyException ''ImportError'')"
          and msg = "''db down''"
          and av = False
          and pre = "([]::user list)"
          and u = "\<lparr>user_id = 1, first_name = ''Ann'', last_name = ''Lee'', email = ''ann@school''\<rparr>"
          and post = "[]"
          and ss = "[\<lparr>user_id = 1, first_name = ''Ann'', last_name = ''Lee'', email = ''ann@school''\<rparr>]"
          and ts = "[\<lparr>user_id = 2, first_name = ''Bo'', last_name = ''Roy'', email = ''bo@school''\<rparr>]"
          and n = 3
          and p = "(Some 15)"
          and a = "(Some 1)"]
      by (elim conjE) assumption
    from imp hyp have "fst (generate_daily_statistics (example_env\<lparr>local_imports := Some (PyException ''ImportError'')\<rparr>) fresh_world) = Inl (PyException ''ImportError'')" by (rule mp)
    then show ?thesis by (simp add: except_Exception_def failure_record_def)
  qed
  have r2: "fst (send_inactivity_notifications (example_env\<lparr>local_imports := Some (PyException ''ImportError'')\<rparr>) fresh_world)
     = Inl (PyException ''ImportError'')"
  proof -
    have hyp: "local_imports (example_env\<lparr>local_imports := Some (PyException ''ImportError'')\<rparr>) = Some (PyException ''ImportError'')"
      by (simp add: example_env_def update_point_caches_def update_point_caches_try_def
          generate_daily_statistics_def generate_daily_statistics_try_def
          send_inactivity_notifications_def send_inactivity_notifications_try_def Let_def)
    have imp: "(local_imports (example_env\<lparr>local_imports := Some (PyException ''ImportError'')\<rparr>) = Some (PyException ''ImportError''))
        \<longrightarrow> fst (send_inactivity_notifications (example_env\<lparr>local_imports := Some (PyException ''ImportError'')\<rparr>) fresh_world) = Inl (PyException ''ImportError'')"
      using handler_exception_policy [where db = "(example_env\<lparr>local_imports := Some (PyException ''ImportError'')\<rparr>)"
          and w = fresh_world
          and e = "(PyException ''ImportError'')"
          and msg = "''db down''"
          and av = False
          and pre = "([]::user list)"
          and u = "\<lparr>user_id = 1, first_name = ''Ann'', last_name = ''Lee'', email = ''ann@school''\<rparr>"
          and post = "[]"
          and ss = "[\<lparr>user_id = 1, first_name = ''Ann'', last_name = ''Lee'', email = ''ann@school''\<rparr>]"
          and ts = "[\<lparr>user_id = 2, first_name = ''Bo'', last_name = ''Roy'', email = ''bo@school''\<rparr>]"
          and n = 3
          and p = "(Some 15)"
          and a = "(Some 1)"]
      by (elim conjE) assumption
    from imp hyp have "fst (send_inactivity_notifications (example_env\<lparr>local_imports := Some (PyException ''ImportError'')\<rparr>) fresh_world) = Inl (PyException ''ImportError'')" by (rule mp)
    then show ?thesis by (simp add: except_Exception_def failure_record_def)
  qed
  have r3: "fst (update_point_caches False (example_env\<lparr>users_by_role := (\<lambda>role. Inl (PyException ''db down''))\<rparr>) fresh_world)
     = Inr (PDict [(''success'', PBool False), (''error'', PStr ''db down'')])"
  proof -
    have hyp: "local_imports (example_env\<lparr>users_by_role := (\<lambda>role. Inl (PyException ''db down''))\<rparr>) = None
        \<and> users_by_role (example_env\<lparr>users_by_role := (\<lambda>role. Inl (PyException ''db down''))\<rparr>) ''student'' = Inl (PyException ''db down'')"
      by (simp add: example_env_def update_point_caches_def update_point_caches_try_def
          generate_daily_statistics_def generate_daily_statistics_try_def
          send_inactivity_notifications_def send_inactivity_notifications_try_def Let_def)
    have imp: "(local_imports (example_env\<lparr>users_by_role := (\<lambda>role. Inl (PyException ''db down''))\<rparr>) = None
        \<and> users_by_role (example_env\<lparr>users_by_role := (\<lambda>role. Inl (PyException ''db down''))\<rparr>) ''student'' = Inl (PyException ''db down''))
        \<longrightarrow> fst (update_point_caches False (example_env\<lparr>users_by_role := (\<lambda>role. Inl (PyException ''db down''))\<rparr>) fresh_world) = except_Exception (PyException ''db down'')"
      using handler_exception_policy [where db = "(example_env\<lparr>users_by_role := (\<lambda>role. Inl (PyException ''db down''))\<rparr>)"
          and w = fresh_world
          and e = "(PyException ''db down'')"
          and msg = "''db down''"
          and av = False
          and pre = "([]::user list)"
          and u = "\<lparr>user_id = 1, first_name = ''Ann'', last_name = ''Lee'', email = ''ann@school''\<rparr>"
          and post = "[]"
          and ss = "[\<lparr>user_id = 1, first_name = ''Ann'', last_name = ''Lee'', email = ''ann@school''\<rparr>]"
          and ts = "[\<lparr>user_id = 2, first_name = ''Bo'', last_name = ''Roy'', email = ''bo@school''\<rparr>]"
          and n = 3
          and p = "(Some 15)"
          and a = "(Some 1)"]
      by (elim conjE) assumption
    from imp hyp have "fst (update_point_caches False (example_env\<lparr>users_by_role := (\<lambda>role. Inl (PyException ''db down''))\<rparr>) fresh_world) = except_Exception (PyException ''db down'')" by (rule mp)
    then show ?thesis by (simp add: except_Exception_def failure_record_def)
  qed
  have r4: "fst (update_point_caches False (example_env\<lparr>sum_points_student := (\<lambda>i. Inl (PyException ''db down''))\<rparr>) fresh_world)
     = Inr (PDict [(''success'', PBool False), (''error'', PStr ''db down'')])"
  proof -
    have hyp: "local_imports (example_env\<lparr>sum_points_student := (\<lambda>i. Inl (PyException ''db down''))\<rparr>) = None
        \<and> users_by_role (example_env\<lparr>sum_points_student := (\<lambda>i. Inl (PyException ''db down''))\<rparr>) ''student'' = Inr (([]::user list) @ \<lparr>user_id = 1, first_name = ''Ann'', last_name = ''Lee'', email = ''ann@school''\<rparr> # [])
        \<and> (\<forall>x \<in> set ([]::user list). \<exists>v. sum_points_student (example_env\<lparr>sum_points_student := (\<lambda>i. Inl (PyException ''db down''))\<rparr>) (user_id x) = Inr v)
        \<and> sum_points_student (example_env\<lparr>sum_points_student := (\<lambda>i. Inl (PyException ''db down''))\<rparr>) (user_id \<lparr>user_id = 1, first_name = ''Ann'', last_name = ''Lee'', email = ''ann@school''\<rparr>) = Inl (PyException ''db down'')"
      by (simp add: example_env_def update_point_caches_def update_point_caches_try_def
          generate_daily_statistics_def generate_daily_statistics_try_def
          send_inactivity_notifications_def send_inactivity_notifications_try_def Let_def)
    have imp: "(local_imports (example_env\<lparr>sum_points_student := (\<lambda>i. Inl (PyException ''db down''))\<rparr>) = None
        \<and> users_by_role (example_env\<lparr>sum_points_student := (\<lambda>i. Inl (PyException ''db down''))\<rparr>) ''student'' = Inr (([]::user list) @ \<lparr>user_id = 1, first_name = ''Ann'', last_name = ''Lee'', email = ''ann@school''\<rparr> # [])
        \<and> (\<forall>x \<in> set ([]::user list). \<exists>v. sum_points_student (example_env\<lparr>sum_points_student := (\<lambda>i. Inl (PyException ''db down''))\<rparr>) (user_id x) = Inr v)
        \<and> sum_points_student (example_env\<lparr>sum_points_student := (\<lambda>i. Inl (PyException ''db down''))\<rparr>) (user_id \<lparr>user_id = 1, first_name = ''Ann'', last_name = ''Lee'', email = ''ann@school''\<rparr>) = Inl (PyException ''db down''))
        \<longrightarrow> fst (update_point_caches False (example_env\<lparr>sum_points_student := (\<lambda>i. Inl (PyException ''db down''))\<rparr>) fresh_world) = except_Exception (PyException ''db down'')"
      using handler_exception_policy [where db = "(example_env\<lparr>sum_points_student := (\<lambda>i. Inl (PyException ''db down''))\<rparr>)"
          and w = fresh_world
          and e = "(PyException ''db down'')"
          and msg = "''db down''"
          and av = False
          and pre = "([]::user list)"
          and u = "\<lparr>user_id = 1, first_name = ''Ann'', last_name = ''Lee'', email = ''ann@school''\<rparr>"
          and post = "[]"
          and ss = "[\<lparr>user_id = 1, first_name = ''Ann'', last_name = ''Lee'', email = ''ann@school''\<rparr>]"
          and ts = "[\<lparr>user_id = 2, first_name = ''Bo'', last_name = ''Roy'', email = ''bo@school''\<rparr>]"
          and n = 3
          and p = "(Some 15)"
          and a = "(Some 1)"]
      by (elim conjE) assumption
    from imp hyp have "fst (update_point_caches False (example_env\<lparr>sum_points_student := (\<lambda>i. Inl (PyException ''db down''))\<rparr>) fresh_world) = except_Exception (PyException ''db down'')" by (rule mp)
    then show ?thesis by (simp add: except_Exception_def failure_record_def)
  qed
  have r5: "fst (update_point_caches False (example_env\<lparr>users_by_role := (\<lambda>role. if role = ''student'' then Inr [\<lparr>user_id = 1, first_name = ''Ann'', last_name = ''Lee'', email = ''ann@school''\<rparr>] else Inl (PyException ''db down''))\<rparr>) fresh_world)
     = Inr (PDict [(''success'', PBool False), (''error'', PStr ''db down'')])"
  proof -
    have hyp: "local_imports (example_env\<lparr>users_by_role := (\<lambda>role. if role = ''student'' then Inr [\<lparr>user_id = 1, first_name = ''Ann'', last_name = ''Lee'', email = ''ann@school''\<rparr>] else Inl (PyException ''db down''))\<rparr>) = None
        \<and> users_by_role (example_env\<lparr>users_by_role := (\<lambda>role. if role = ''student'' then Inr [\<lparr>user_id = 1, first_name = ''Ann'', last_name = ''Lee'', email = ''ann@school''\<rparr>] else Inl (PyException ''db down''))\<rparr>) ''student'' = Inr [\<lparr>user_id = 1, first_name = ''Ann'', last_name = ''Lee'', email = ''ann@school''\<rparr>]
        \<and> (\<forall>x \<in> set [\<lparr>user_id = 1, first_name = ''Ann'', last_name = ''Lee'', email = ''ann@school''\<rparr>]. \<exists>v. sum_points_student (example_env\<lparr>users_by_role := (\<lambda>role. if role = ''student'' then Inr [\<lparr>user_id = 1, first_name = ''Ann'', last_name = ''Lee'', email = ''ann@school''\<rparr>] else Inl (PyException ''db down''))\<rparr>) (user_id x) = Inr v)
        \<and> users_by_role (example_env\<lparr>users_by_role := (\<lambda>role. if role = ''student'' then Inr [\<lparr>user_id = 1, first_name = ''Ann'', last_name = ''Lee'', email = ''ann@school''\<rparr>] else Inl (PyException ''db down''))\<rparr>) ''teacher'' = Inl (PyException ''db down'')"
      by (simp add: example_env_def update_point_caches_def update_point_caches_try_def
          generate_daily_statistics_def generate_daily_statistics_try_def
          send_inactivity_notifications_def send_inactivity_notifications_try_def Let_def)
    have imp: "(local_imports (example_env\<lparr>users_by_role := (\<lambda>role. if role = ''student'' then Inr [\<lparr>user_id = 1, first_name = ''Ann'', last_name = ''Lee'', email = ''ann@school''\<rparr>] else Inl (PyException ''db down''))\<rparr>) = None
        \<and> users_by_role (example_env\<lparr>users_by_role := (\<lambda>role. if role = ''student'' then Inr [\<lparr>user_id = 1, first_name = ''Ann'', last_name = ''Lee'', email = ''ann@school''\<rparr>] else Inl (PyException ''db down''))\<rparr>) ''student'' = Inr [\<lparr>user_id = 1, first_name = ''Ann'', last_name = ''Lee'', email = ''ann@school''\<rparr>]
        \<and> (\<forall>x \<in> set [\<lparr>user_id = 1, first_name = ''Ann'', last_name = ''Lee'', email = ''ann@school''\<rparr>]. \<exists>v. sum_points_student (example_env\<lparr>users_by_role := (\<lambda>role. if role = ''student'' then Inr [\<lparr>user_id = 1, first_name = ''Ann'', last_name = ''Lee'', email = ''ann@school''\<rparr>] else Inl (PyException ''db down''))\<rparr>) (user_id x) = Inr v)
        \<and> users_by_role (example_env\<lparr>users_by_role := (\<lambda>role. if role = ''student'' then Inr [\<lparr>user_id = 1, first_name = ''Ann'', last_name = ''Lee'', email = ''ann@school''\<rparr>] else Inl (PyException ''db down''))\<rparr>) ''teacher'' = Inl (PyException ''db down''))
        \<longrightarrow> fst (update_point_caches False (example_env\<lparr>users_by_role := (\<lambda>role. if role = ''student'' then Inr [\<lparr>user_id = 1, first_name = ''Ann'', last_name = ''Lee'', email = ''ann@school''\<rparr>] else Inl (PyException ''db down''))\<rparr>) fresh_world) = except_Exception (PyException ''db down'')"
      using handler_exception_policy [where db = "(example_env\<lparr>users_by_role := (\<lambda>role. if role = ''student'' then Inr [\<lparr>user_id = 1, first_name = ''Ann'', last_name = ''Lee'', email = ''ann@school''\<rparr>] else Inl (PyException ''db down''))\<rparr>)"
          and w = fresh_world
          and e = "(PyException ''db down'')"
          and msg = "''db down''"
          and av = False
          and pre = "([]::user list)"
          and u = "\<lparr>user_id = 1, first_name = ''Ann'', last_name = ''Lee'', email = ''ann@school''\<rparr>"
          and post = "[]"
          and ss = "[\<lparr>user_id = 1, first_name = ''Ann'', last_name = ''Lee'', email = ''ann@school''\<rparr>]"
          and ts = "[\<lparr>user_id = 2, first_name = ''Bo'', last_name = ''Roy'', email = ''bo@school''\<rparr>]"
          and n = 3
          and p = "(Some 15)"
          and a = "(Some 1)"]
      by (elim conjE) assumption
    from imp hyp have "fst (update_point_caches False (example_env\<lparr>users_by_role := (\<lambda>role. if role = ''student'' then Inr [\<lparr>user_id = 1, first_name = ''Ann'', last_name = ''Lee'', email = ''ann@school''\<rparr>] else Inl (PyException ''db down''))\<rparr>) fresh_world) = except_Exception (PyException ''db down'')" by (rule mp)
    then show ?thesis by (simp add: except_Exception_def failure_record_def)
  qed
  have r6: "fst (update_point_caches False (example_env\<lparr>sum_points_teacher := (\<lambda>i. Inl (PyException ''db down''))\<rparr>) fresh_world)
     = Inr (PDict [(''success'', PBool False), (''error'', PStr ''db down'')])"
  proof -
    have hyp: "local_imports (example_env\<lparr>sum_points_teacher := (\<lambda>i. Inl (PyException ''db down''))\<rparr>) = None
        \<and> users_by_role (example_env\<lparr>sum_points_teacher := (\<lambda>i. Inl (PyException ''db down''))\<rparr>) ''student'' = Inr [\<lparr>user_id = 1, first_name = ''Ann'', last_name = ''Lee'', email = ''ann@school''\<rparr>]
        \<and> (\<forall>x \<in> set [\<lparr>user_id = 1, first_name = ''Ann'', last_name = ''Lee'', email = ''ann@school''\<rparr>]. \<exists>v. sum_points_student (example_env\<lparr>sum_points_teacher := (\<lambda>i. Inl (PyException ''db down''))\<rparr>) (user_id x) = Inr v)
        \<and> users_by_role (example_env\<lparr>sum_points_teacher := (\<lambda>i. Inl (PyException ''db down''))\<rparr>) ''teacher'' = Inr (([]::user list) @ \<lparr>user_id = 2, first_name = ''Bo'', last_name = ''Roy'', email = ''bo@school''\<rparr> # [])
        \<and> (\<forall>x \<in> set ([]::user list). \<exists>v. sum_points_teacher (example_env\<lparr>sum_points_teacher := (\<lambda>i. Inl (PyException ''db down''))\<rparr>) (user_id x) = Inr v)
        \<and> sum_points_teacher (example_env\<lparr>sum_points_teacher := (\<lambda>i. Inl (PyException ''db down''))\<rparr>) (user_id \<lparr>user_id = 2, first_name = ''Bo'', last_name = ''Roy'', email = ''bo@school''\<rparr>) = Inl (PyException ''db down'')"
      by (simp add: example_env_def update_point_caches_def update_point_caches_try_def
          generate_daily_statistics_def generate_daily_statistics_try_def
          send_inactivity_notifications_def send_inactivity_notifications_try_def Let_def)
    have imp: "(local_imports (example_env\<lparr>sum_points_teacher := (\<lambda>i. Inl (PyException ''db down''))\<rparr>) = None
        \<and> users_by_role (example_env\<lparr>sum_points_teacher := (\<lambda>i. Inl (PyException ''db down''))\<rparr>) ''student'' = Inr [\<lparr>user_id = 1, first_name = ''Ann'', last_name = ''Lee'', email = ''ann@school''\<rparr>]
        \<and> (\<forall>x \<in> set [\<lparr>user_id = 1, first_name = ''Ann'', last_name = ''Lee'', email = ''ann@school''\<rparr>]. \<exists>v. sum_points_student (example_env\<lparr>sum_points_teacher := (\<lambda>i. Inl (PyException ''db down''))\<rparr>) (user_id x) = Inr v)
        \<and> users_by_role (example_env\<lparr>sum_points_teacher := (\<lambda>i. Inl (PyException ''db down''))\<rparr>) ''teacher'' = Inr (([]::user list) @ \<lparr>user_id = 2, first_name = ''Bo'', last_name = ''Roy'', email = ''bo@school''\<rparr> # [])
        \<and> (\<forall>x \<in> set ([]::user list). \<exists>v. sum_points_teacher (example_env\<lparr>sum_points_teacher := (\<lambda>i. Inl (PyException ''db down''))\<rparr>) (user_id x) = Inr v)
        \<and> sum_points_teacher (example_env\<lparr>sum_points_teacher := (\<lambda>i. Inl (PyException ''db down''))\<rparr>) (user_id \<lparr>user_id = 2, first_name = ''Bo'', last_name = ''Roy'', email = ''bo@school''\<rparr>) = Inl (PyException ''db down''))
        \<longrightarrow> fst (update_point_caches False (example_env\<lparr>sum_points_teacher := (\<lambda>i. Inl (PyException ''db down''))\<rparr>) fresh_world) = except_Exception (PyException ''db down'')"
      using handler_exception_policy [where db = "(example_env\<lparr>sum_points_teacher := (\<lambda>i. Inl (PyException ''db down''))\<rparr>)"
          and w = fresh_world
          and e = "(PyException ''db down'')"
          and msg = "''db down''"
          and av = False
          and pre = "([]::user list)"
          and u = "\<lparr>user_id = 2, first_name = ''Bo'', last_name = ''Roy'', email = ''bo@school''\<rparr>"
          and post = "[]"
          and ss = "[\<lparr>user_id = 1, first_name = ''Ann'', last_name = ''Lee'', email = ''ann@school''\<rparr>]"
          and ts = "[\<lparr>user_id = 2, first_name = ''Bo'', last_name = ''Roy'', email = ''bo@school''\<rparr>]"
          and n = 3
          and p = "(Some 15)"
          and a = "(Some 1)"]
      by (elim conjE) assumption
    from imp hyp have "fst (update_point_caches False (example_env\<lparr>sum_points_teacher := (\<lambda>i. Inl (PyException ''db down''))\<rparr>) fresh_world) = except_Exception (PyException ''db down'')" by (rule mp)
    then show ?thesis by (simp add: except_Exception_def failure_record_def)
  qed
  have r7: "fst (update_point_caches False (example_env\<lparr>session_commit := Some (PyException ''db down'')\<rparr>) fresh_world)
     = Inr (PDict [(''success'', PBool False), (''error'', PStr ''db down'')])"
  proof -
    have hyp: "local_imports (example_env\<lparr>session_commit := Some (PyException ''db down'')\<rparr>) = None
        \<and> users_by_role (example_env\<lparr>session_commit := Some (PyException ''db down'')\<rparr>) ''student'' = Inr [\<lparr>user_id = 1, first_name = ''Ann'', last_name = ''Lee'', email = ''ann@school''\<rparr>]
        \<and> (\<forall>x \<in> set [\<lparr>user_id = 1, first_name = ''Ann'', last_name = ''Lee'', email = ''ann@school''\<rparr>]. \<exists>v. sum_points_student (example_env\<lparr>session_commit := Some (PyException ''db down'')\<rparr>) (user_id x) = Inr v)
        \<and> users_by_role (example_env\<lparr>session_commit := Some (PyException ''db down'')\<rparr>) ''teacher'' = Inr [\<lparr>user_id = 2, first_name = ''Bo'', last_name = ''Roy'', email = ''bo@school''\<rparr>]
        \<and> (\<forall>x \<in> set [\<lparr>user_id = 2, first_name = ''Bo'', last_name = ''Roy'', email = ''bo@school''\<rparr>]. \<exists>v. sum_points_teacher (example_env\<lparr>session_commit := Some (PyException ''db down'')\<rparr>) (user_id x) = Inr v)
        \<and> session_commit (example_env\<lparr>session_commit := Some (PyException ''db down'')\<rparr>) = Some (PyException ''db down'')"
      by (simp add: example_env_def update_point_caches_def update_point_caches_try_def
          generate_daily_statistics_def generate_daily_statistics_try_def
          send_inactivity_notifications_def send_inactivity_notifications_try_def Let_def)
    have imp: "(local_imports (example_env\<lparr>session_commit := Some (PyException ''db down'')\<rparr>) = None
        \<and> users_by_role (example_env\<lparr>session_commit := Some (PyException ''db down'')\<rparr>) ''student'' = Inr [\<lparr>user_id = 1, first_name = ''Ann'', last_name = ''Lee'', email = ''ann@school''\<rparr>]
        \<and> (\<forall>x \<in> set [\<lparr>user_id = 1, first_name = ''Ann'', last_name = ''Lee'', email = ''ann@school''\<rparr>]. \<exists>v. sum_points_student (example_env\<lparr>session_commit := Some (PyException ''db down'')\<rparr>) (user_id x) = Inr v)
        \<and> users_by_role (example_env\<lparr>session_commit := Some (PyException ''db down'')\<rparr>) ''teacher'' = Inr [\<lparr>user_id = 2, first_name = ''Bo'', last_name = ''Roy'', email = ''bo@school''\<rparr>]
        \<and> (\<forall>x \<in> set [\<lparr>user_id = 2, first_name = ''Bo'', last_name = ''Roy'', email = ''bo@school''\<rparr>]. \<exists>v. sum_points_teacher (example_env\<lparr>session_commit := Some (PyException ''db down'')\<rparr>) (user_id x) = Inr v)
        \<and> session_commit (example_env\<lparr>session_commit := Some (PyException ''db down'')\<rparr>) = Some (PyException ''db down''))
        \<longrightarrow> fst (update_point_caches False (example_env\<lparr>session_commit := Some (PyException ''db down'')\<rparr>) fresh_world) = except_Exception (PyException ''db down'')"
      using handler_exception_policy [where db = "(example_env\<lparr>session_commit := Some (PyException ''db down'')\<rparr>)"
          and w = fresh_world
          and e = "(PyException ''db down'')"
          and msg = "''db down''"
          and av = False
          and pre = "([]::user list)"
          and u = "\<lparr>user_id = 1, first_name = ''Ann'', last_name = ''Lee'', email = ''ann@school''\<rparr>"
          and post = "[]"
          and ss = "[\<lparr>user_id = 1, first_name = ''Ann'', last_name = ''Lee'', email = ''ann@school''\<rparr>]"
          and ts = "[\<lparr>user_id = 2, first_name = ''Bo'', last_name = ''Roy'', email = ''bo@school''\<rparr>]"
          and n = 3
          and p = "(Some 15)"
          and a = "(Some 1)"]
      by (elim conjE) assumption
    from imp hyp have "fst (update_point_caches False (example_env\<lparr>session_commit := Some (PyException ''db down'')\<rparr>) fresh_world) = except_Exception (PyException ''db down'')" by (rule mp)
    then show ?thesis by (simp add: except_Exception_def failure_record_def)
  qed
  have r8: "fst (generate_daily_statistics (example_env\<lparr>count_transactions := (\<lambda>since until. Inl (PyException ''db down''))\<rparr>) fresh_world)
     = Inr (PDict [(''success'', PBool False), (''error'', PStr ''db down'')])"
  proof -
    have hyp: "local_imports (example_env\<lparr>count_transactions := (\<lambda>since until. Inl (PyException ''db down''))\<rparr>) = None
        \<and> count_transactions (example_env\<lparr>count_transactions := (\<lambda>since until. Inl (PyException ''db down''))\<rparr>) (utcnow (example_env\<lparr>count_transactions := (\<lambda>since until. Inl (PyException ''db down''))\<rparr>) - timedelta_days 1) (utcnow (example_env\<lparr>count_transactions := (\<lambda>since until. Inl (PyException ''db down''))\<rparr>)) = Inl (PyException ''db down'')"
      by (simp add: example_env_def update_point_caches_def update_point_caches_try_def
          generate_daily_statistics_def generate_daily_statistics_try_def
          send_inactivity_notifications_def send_inactivity_notifications_try_def Let_def)
    have imp: "(local_imports (example_env\<lparr>count_transactions := (\<lambda>since until. Inl (PyException ''db down''))\<rparr>) = None
        \<and> count_transactions (example_env\<lparr>count_transactions := (\<lambda>since until. Inl (PyException ''db down''))\<rparr>) (utcnow (example_env\<lparr>count_transactions := (\<lambda>since until. Inl (PyException ''db down''))\<rparr>) - timedelta_days 1) (utcnow (example_env\<lparr>count_transactions := (\<lambda>since until. Inl (PyException ''db down''))\<rparr>)) = Inl (PyException ''db down''))
        \<longrightarrow> fst (generate_daily_statistics (example_env\<lparr>count_transactions := (\<lambda>since until. Inl (PyException ''db down''))\<rparr>) fresh_world) = except_Exception (PyException ''db down'')"
      using handler_exception_policy [where db = "(example_env\<lparr>count_transactions := (\<lambda>since until. Inl (PyException ''db down''))\<rparr>)"
          and w = fresh_world
          and e = "(PyException ''db down'')"
          and msg = "''db down''"
          and av = False
          and pre = "([]::user list)"
          and u = "\<lparr>user_id = 1, first_name = ''Ann'', last_name = ''Lee'', email = ''ann@school''\<rparr>"
          and post = "[]"
          and ss = "[\<lparr>user_id = 1, first_name = ''Ann'', last_name = ''Lee'', email = ''ann@school''\<rparr>]"
          and ts = "[\<lparr>user_id = 2, first_name = ''Bo'', last_name = ''Roy'', email = ''bo@school''\<rparr>]"
          and n = 3
          and p = "(Some 15)"
          and a = "(Some 1)"]
      by (elim conjE) assumption
    from imp hyp have "fst (generate_daily_statistics (example_env\<lparr>count_transactions := (\<lambda>since until. Inl (PyException ''db down''))\<rparr>) fresh_world) = except_Exception (PyException ''db down'')" by (rule mp)
    then show ?thesis by (simp add: except_Exception_def failure_record_def)
  qed
  have r9: "fst (generate_daily_statistics (example_env\<lparr>sum_points_between := (\<lambda>since until. Inl (PyException ''db down''))\<rparr>) fresh_world)
     = Inr (PDict [(''success'', PBool False), (''error'', PStr ''db down'')])"
  proof -
    have hyp: "local_imports (example_env\<lparr>sum_points_between := (\<lambda>since until. Inl (PyException ''db down''))\<rparr>) = None
        \<and> count_transactions (example_env\<lparr>sum_points_between := (\<lambda>since until. Inl (PyException ''db down''))\<rparr>) (utcnow (example_env\<lparr>sum_points_between := (\<lambda>since until. Inl (PyException ''db down''))\<rparr>) - timedelta_days 1) (utcnow (example_env\<lparr>sum_points_between := (\<lambda>since until. Inl (PyException ''db down''))\<rparr>)) = Inr 3
        \<and> sum_points_between (example_env\<lparr>sum_points_between := (\<lambda>since until. Inl (PyException ''db down''))\<rparr>) (utcnow (example_env\<lparr>sum_points_between := (\<lambda>since until. Inl (PyException ''db down''))\<rparr>) - timedelta_days 1) (utcnow (example_env\<lparr>sum_points_between := (\<lambda>since until. Inl (PyException ''db down''))\<rparr>)) = Inl (PyException ''db down'')"
      by (simp add: example_env_def update_point_caches_def update_point_caches_try_def
          generate_daily_statistics_def generate_daily_statistics_try_def
          send_inactivity_notifications_def send_inactivity_notifications_try_def Let_def)
    have imp: "(local_imports (example_env\<lparr>sum_points_between := (\<lambda>since until. Inl (PyException ''db down''))\<rparr>) = None
        \<and> count_transactions (example_env\<lparr>sum_points_between := (\<lambda>since until. Inl (PyException ''db down''))\<rparr>) (utcnow (example_env\<lparr>sum_points_between := (\<lambda>since until. Inl (PyException ''db down''))\<rparr>) - timedelta_days 1) (utcnow (example_env\<lparr>sum_points_between := (\<lambda>since until. Inl (PyException ''db down''))\<rparr>)) = Inr 3
        \<and> sum_points_between (example_env\<lparr>sum_points_between := (\<lambda>since until. Inl (PyException ''db down''))\<rparr>) (utcnow (example_env\<lparr>sum_points_between := (\<lambda>since until. Inl (PyException ''db down''))\<rparr>) - timedelta_days 1) (utcnow (example_env\<lparr>sum_points_between := (\<lambda>since until. Inl (PyException ''db down''))\<rparr>)) = Inl (PyException ''db down''))
        \<longrightarrow> fst (generate_daily_statistics (example_env\<lparr>sum_points_between := (\<lambda>since until. Inl (PyException ''db down''))\<rparr>) fresh_world) = except_Exception (PyException ''db down'')"
      using handler_exception_policy [where db = "(example_env\<lparr>sum_points_between := (\<lambda>since until. Inl (PyException ''db down''))\<rparr>)"
          and w = fresh_world
          and e = "(PyException ''db down'')"
          and msg = "''db down''"
          and av = False
          and pre = "([]::user list)"
          and u = "\<lparr>user_id = 1, first_name = ''Ann'', last_name = ''Lee'', email = ''ann@school''\<rparr>"
          and post = "[]"
          and ss = "[\<lparr>user_id = 1, first_name = ''Ann'', last_name = ''Lee'', email = ''ann@school''\<rparr>]"
          and ts = "[\<lparr>user_id = 2, first_name = ''Bo'', last_name = ''Roy'', email = ''bo@school''\<rparr>]"
          and n = 3
          and p = "(Some 15)"
          and a = "(Some 1)"]
      by (elim conjE) assumption
    from imp hyp have "fst (generate_daily_statistics (example_env\<lparr>sum_points_between := (\<lambda>since until. Inl (PyException ''db down''))\<rparr>) fresh_world) = except_Exception (PyException ''db down'')" by (rule mp)
    then show ?thesis by (simp add: except_Exception_def failure_record_def)
  qed
  have r10: "fst (generate_daily_statistics (example_env\<lparr>count_active_teachers := (\<lambda>since until. Inl (PyException ''db down''))\<rparr>) fresh_world)
     = Inr (PDict [(''success'', PBool False), (''error'', PStr ''db down'')])"
  proof -
    have hyp: "local_imports (example_env\<lparr>count_active_teachers := (\<lambda>since until. Inl (PyException ''db down''))\<rparr>) = None
        \<and> count_transactions (example_env\<lparr>count_active_teachers := (\<lambda>since until. Inl (PyException ''db down''))\<rparr>) (utcnow (example_env\<lparr>count_active_teachers := (\<lambda>since until. Inl (PyException ''db down''))\<rparr>) - timedelta_days 1) (utcnow (example_env\<lparr>count_active_teachers := (\<lambda>since until. Inl (PyException ''db down''))\<rparr>)) = Inr 3
        \<and> sum_points_between (example_env\<lparr>count_active_teachers := (\<lambda>since until. Inl (PyException ''db down''))\<rparr>) (utcnow (example_env\<lparr>count_active_teachers := (\<lambda>since until. Inl (PyException ''db down''))\<rparr>) - timedelta_days 1) (utcnow (example_env\<lparr>count_active_teachers := (\<lambda>since until. Inl (PyException ''db down''))\<rparr>)) = Inr (Some 15)
        \<and> count_active_teachers (example_env\<lparr>count_active_teachers := (\<lambda>since until. Inl (PyException ''db down''))\<rparr>) (utcnow (example_env\<lparr>count_active_teachers := (\<lambda>since until. Inl (PyException ''db down''))\<rparr>) - timedelta_days 1) (utcnow (example_env\<lparr>count_active_teachers := (\<lambda>since until. Inl (PyException ''db down''))\<rparr>)) = Inl (PyException ''db down'')"
      by (simp add: example_env_def update_point_caches_def update_point_caches_try_def
          generate_daily_statistics_def generate_daily_statistics_try_def
          send_inactivity_notifications_def send_inactivity_notifications_try_def Let_def)
    have imp: "(local_imports (example_env\<lparr>count_active_teachers := (\<lambda>since until. Inl (PyException ''db down''))\<rparr>) = None
        \<and> count_transactions (example_env\<lparr>count_active_teachers := (\<lambda>since until. Inl (PyException ''db down''))\<rparr>) (utcnow (example_env\<lparr>count_active_teachers := (\<lambda>since until. Inl (PyException ''db down''))\<rparr>) - timedelta_days 1) (utcnow (example_env\<lparr>count_active_teachers := (\<lambda>since until. Inl (PyException ''db down''))\<rparr>)) = Inr 3
        \<and> sum_points_between (example_env\<lparr>count_active_teachers := (\<lambda>since until. Inl (PyException ''db down''))\<rparr>) (utcnow (example_env\<lparr>count_active_teachers := (\<lambda>since until. Inl (PyException ''db down''))\<rparr>) - timedelta_days 1) (utcnow (example_env\<lparr>count_active_teachers := (\<lambda>since until. Inl (PyException ''db down''))\<rparr>)) = Inr (Some 15)
        \<and> count_active_teachers (example_env\<lparr>count_active_teachers := (\<lambda>since until. Inl (PyException ''db down''))\<rparr>) (utcnow (example_env\<lparr>count_active_teachers := (\<lambda>since until. Inl (PyException ''db down''))\<rparr>) - timedelta_days 1) (utcnow (example_env\<lparr>count_active_teachers := (\<lambda>since until. Inl (PyException ''db down''))\<rparr>)) = Inl (PyException ''db down''))
        \<longrightarrow> fst (generate_daily_statistics (example_env\<lparr>count_active_teachers := (\<lambda>since until. Inl (PyException ''db down''))\<rparr>) fresh_world) = except_Exception (PyException ''db down'')"
      using handler_exception_policy [where db = "(example_env\<lparr>count_active_teachers := (\<lambda>since until. Inl (PyException ''db down''))\<rparr>)"
          and w = fresh_world
          and e = "(PyException ''db down'')"
          and msg = "''db down''"
          and av = False
          and pre = "([]::user list)"
          and u = "\<lparr>user_id = 1, first_name = ''Ann'', last_name = ''Lee'', email = ''ann@school''\<rparr>"
          and post = "[]"
          and ss = "[\<lparr>user_id = 1, first_name = ''Ann'', last_name = ''Lee'', email = ''ann@school''\<rparr>]"
          and ts = "[\<lparr>user_id = 2, first_name = ''Bo'', last_name = ''Roy'', email = ''bo@school''\<rparr>]"
          and n = 3
          and p = "(Some 15)"
          and a = "(Some 1)"]
      by (elim conjE) assumption
    from imp hyp have "fst (generate_daily_statistics (example_env\<lparr>count_active_teachers := (\<lambda>since until. Inl (PyException ''db down''))\<rparr>) fresh_world) = except_Exception (PyException ''db down'')" by (rule mp)
    then show ?thesis by (simp add: except_Exception_def failure_record_def)
  qed
  have r11: "fst (generate_daily_statistics (example_env\<lparr>count_active_students := (\<lambda>since until. Inl (PyException ''db down''))\<rparr>) fresh_world)
     = Inr (PDict [(''success'', PBool False), (''error'', PStr ''db down'')])"
  proof -
    have hyp: "local_imports (example_env\<lparr>count_active_students := (\<lambda>since until. Inl (PyException ''db down''))\<rparr>) = None
        \<and> count_transactions (example_env\<lparr>count_active_students := (\<lambda>since until. Inl (PyException ''db down''))\<rparr>) (utcnow (example_env\<lparr>count_active_students := (\<lambda>since until. Inl (PyException ''db down''))\<rparr>) - timedelta_days 1) (utcnow (example_env\<lparr>count_active_students := (\<lambda>since until. Inl (PyException ''db down''))\<rparr>)) = Inr 3
        \<and> sum_points_between (example_env\<lparr>count_active_students := (\<lambda>since until. Inl (PyException ''db down''))\<rparr>) (utcnow (example_env\<lparr>count_active_students := (\<lambda>since until. Inl (PyException ''db down''))\<rparr>) - timedelta_days 1) (utcnow (example_env\<lparr>count_active_students := (\<lambda>since until. Inl (PyException ''db down''))\<rparr>)) = Inr (Some 15)
        \<and> count_active_teachers (example_env\<lparr>count_active_students := (\<lambda>since until. Inl (PyException ''db down''))\<rparr>) (utcnow (example_env\<lparr>count_active_students := (\<lambda>since until. Inl (PyException ''db down''))\<rparr>) - timedelta_days 1) (utcnow (example_env\<lparr>count_active_students := (\<lambda>since until. Inl (PyException ''db down''))\<rparr>)) = Inr (Some 1)
        \<and> count_active_students (example_env\<lparr>count_active_students := (\<lambda>since until. Inl (PyException ''db down''))\<rparr>) (utcnow (example_env\<lparr>count_active_students := (\<lambda>since until. Inl (PyException ''db down''))\<rparr>) - timedelta_days 1) (utcnow (example_env\<lparr>count_active_students := (\<lambda>since until. Inl (PyException ''db down''))\<rparr>)) = Inl (PyException ''db down'')"
      by (simp add: example_env_def update_point_caches_def update_point_caches_try_def
          generate_daily_statistics_def generate_daily_statistics_try_def
          send_inactivity_notifications_def send_inactivity_notifications_try_def Let_def)
    have imp: "(local_imports (example_env\<lparr>count_active_students := (\<lambda>since until. Inl (PyException ''db down''))\<rparr>) = None
        \<and> count_transactions (example_env\<lparr>count_active_students := (\<lambda>since until. Inl (PyException ''db down''))\<rparr>) (utcnow (example_env\<lparr>count_active_students := (\<lambda>since until. Inl (PyException ''db down''))\<rparr>) - timedelta_days 1) (utcnow (example_env\<lparr>count_active_students := (\<lambda>since until. Inl (PyException ''db down''))\<rparr>)) = Inr 3
        \<and> sum_points_between (example_env\<lparr>count_active_students := (\<lambda>since until. Inl (PyException ''db down''))\<rparr>) (utcnow (example_env\<lparr>count_active_students := (\<lambda>since until. Inl (PyException ''db down''))\<rparr>) - timedelta_days 1) (utcnow (example_env\<lparr>count_active_students := (\<lambda>since until. Inl (PyException ''db down''))\<rparr>)) = Inr (Some 15)
        \<and> count_active_teachers (example_env\<lparr>count_active_students := (\<lambda>since until. Inl (PyException ''db down''))\<rparr>) (utcnow (example_env\<lparr>count_active_students := (\<lambda>since until. Inl (PyException ''db down''))\<rparr>) - timedelta_days 1) (utcnow (example_env\<lparr>count_active_students := (\<lambda>since until. Inl (PyException ''db down''))\<rparr>)) = Inr (Some 1)
        \<and> count_active_students (example_env\<lparr>count_active_students := (\<lambda>since until. Inl (PyException ''db down''))\<rparr>) (utcnow (example_env\<lparr>count_active_students := (\<lambda>since until. Inl (PyException ''db down''))\<rparr>) - timedelta_days 1) (utcnow (example_env\<lparr>count_active_students := (\<lambda>since until. Inl (PyException ''db down''))\<rparr>)) = Inl (PyException ''db down''))
        \<longrightarrow> fst (generate_daily_statistics (example_env\<lparr>count_active_students := (\<lambda>since until. Inl (PyException ''db down''))\<rparr>) fresh_world) = except_Exception (PyException ''db down'')"
      using handler_exception_policy [where db = "(example_env\<lparr>count_active_students := (\<lambda>since until. Inl (PyException ''db down''))\<rparr>)"
          and w = fresh_world
          and e = "(PyException ''db down'')"
          and msg = "''db down''"
          and av = False
          and pre = "([]::user list)"
          and u = "\<lparr>user_id = 1, first_name = ''Ann'', last_name = ''Lee'', email = ''ann@school''\<rparr>"
          and post = "[]"
          and ss = "[\<lparr>user_id = 1, first_name = ''Ann'', last_name = ''Lee'', email = ''ann@school''\<rparr>]"
          and ts = "[\<lparr>user_id = 2, first_name = ''Bo'', last_name = ''Roy'', email = ''bo@school''\<rparr>]"
          and n = 3
          and p = "(Some 15)"
          and a = "(Some 1)"]
      by (elim conjE) assumption
    from imp hyp have "fst (generate_daily_statistics (example_env\<lparr>count_active_students := (\<lambda>since until. Inl (PyException ''db down''))\<rparr>) fresh_world) = except_Exception (PyException ''db down'')" by (rule mp)
    then show ?thesis by (simp add: except_Exception_def failure_record_def)
  qed
  have r12: "fst (send_inactivity_notifications (example_env\<lparr>users_by_role := (\<lambda>role. Inl (PyException ''db down''))\<rparr>) fresh_world)
     = Inr (PDict [(''success'', PBool False), (''error'', PStr ''db down'')])"
  proof -
    have hyp: "local_imports (example_env\<lparr>users_by_role := (\<lambda>role. Inl (PyException ''db down''))\<rparr>) = None
        \<and> users_by_role (example_env\<lparr>users_by_role := (\<lambda>role. Inl (PyException ''db down''))\<rparr>) ''teacher'' = Inl (PyException ''db down'')"
      by (simp add: example_env_def update_point_caches_def update_point_caches_try_def
          generate_daily_statistics_def generate_daily_statistics_try_def
          send_inactivity_notifications_def send_inactivity_notifications_try_def Let_def)
    have imp: "(local_imports (example_env\<lparr>users_by_role := (\<lambda>role. Inl (PyException ''db down''))\<rparr>) = None
        \<and> users_by_role (example_env\<lparr>users_by_role := (\<lambda>role. Inl (PyException ''db down''))\<rparr>) ''teacher'' = Inl (PyException ''db down''))
        \<longrightarrow> fst (send_inactivity_notifications (example_env\<lparr>users_by_role := (\<lambda>role. Inl (PyException ''db down''))\<rparr>) fresh_world) = except_Exception (PyException ''db down'')"
      using handler_exception_policy [where db = "(example_env\<lparr>users_by_role := (\<lambda>role. Inl (PyException ''db down''))\<rparr>)"
          and w = fresh_world
          and e = "(PyException ''db down'')"
          and msg = "''db down''"
          and av = False
          and pre = "([]::user list)"
          and u = "\<lparr>user_id = 1, first_name = ''Ann'', last_name = ''Lee'', email = ''ann@school''\<rparr>"
          and post = "[]"
          and ss = "[\<lparr>user_id = 1, first_name = ''Ann'', last_name = ''Lee'', email = ''ann@school''\<rparr>]"
          and ts = "[\<lparr>user_id = 2, first_name = ''Bo'', last_name = ''Roy'', email = ''bo@school''\<rparr>]"
          and n = 3
          and p = "(Some 15)"
          and a = "(Some 1)"]
      by (elim conjE) assumption
    from imp hyp have "fst (send_inactivity_notifications (example_env\<lparr>users_by_role := (\<lambda>role. Inl (PyException ''db down''))\<rparr>) fresh_world) = except_Exception (PyException ''db down'')" by (rule mp)
    then show ?thesis by (simp add: except_Exception_def failure_record_def)
  qed
  have r13: "fst (send_inactivity_notifications (example_env\<lparr>last_transaction := (\<lambda>i. Inl (PyException ''db down''))\<rparr>) fresh_world)
     = Inr (PDict [(''success'', PBool False), (''error'', PStr ''db down'')])"
  proof -
    have hyp: "local_imports (example_env\<lparr>last_transaction := (\<lambda>i. Inl (PyException ''db down''))\<rparr>) = None
        \<and> users_by_role (example_env\<lparr>last_transaction := (\<lambda>i. Inl (PyException ''db down''))\<rparr>) ''teacher'' = Inr (([]::user list) @ \<lparr>user_id = 2, first_name = ''Bo'', last_name = ''Roy'', email = ''bo@school''\<rparr> # [])
        \<and> (\<forall>x \<in> set ([]::user list). \<exists>v. last_transaction (example_env\<lparr>last_transaction := (\<lambda>i. Inl (PyException ''db down''))\<rparr>) (user_id x) = Inr v)
        \<and> last_transaction (example_env\<lparr>last_transaction := (\<lambda>i. Inl (PyException ''db down''))\<rparr>) (user_id \<lparr>user_id = 2, first_name = ''Bo'', last_name = ''Roy'', email = ''bo@school''\<rparr>) = Inl (PyException ''db down'')"
      by (simp add: example_env_def update_point_caches_def update_point_caches_try_def
          generate_daily_statistics_def generate_daily_statistics_try_def
          send_inactivity_notifications_def send_inactivity_notifications_try_def Let_def)
    have imp: "(local_imports (example_env\<lparr>last_transaction := (\<lambda>i. Inl (PyException ''db down''))\<rparr>) = None
        \<and> users_by_role (example_env\<lparr>last_transaction := (\<lambda>i. Inl (PyException ''db down''))\<rparr>) ''teacher'' = Inr (([]::user list) @ \<lparr>user_id = 2, first_name = ''Bo'', last_name = ''Roy'', email = ''bo@school''\<rparr> # [])
        \<and> (\<forall>x \<in> set ([]::user list). \<exists>v. last_transaction (example_env\<lparr>last_transaction := (\<lambda>i. Inl (PyException ''db down''))\<rparr>) (user_id x) = Inr v)
        \<and> last_transaction (example_env\<lparr>last_transaction := (\<lambda>i. Inl (PyException ''db down''))\<rparr>) (user_id \<lparr>user_id = 2, first_name = ''Bo'', last_name = ''Roy'', email = ''bo@school''\<rparr>) = Inl (PyException ''db down''))
        \<longrightarrow> fst (send_inactivity_notifications (example_env\<lparr>last_transaction := (\<lambda>i. Inl (PyException ''db down''))\<rparr>) fresh_world) = except_Exception (PyException ''db down'')"
      using handler_exception_policy [where db = "(example_env\<lparr>last_transaction := (\<lambda>i. Inl (PyException ''db down''))\<rparr>)"
          and w = fresh_world
          and e = "(PyException ''db down'')"
          and msg = "''db down''"
          and av = False
          and pre = "([]::user list)"
          and u = "\<lparr>user_id = 2, first_name = ''Bo'', last_name = ''Roy'', email = ''bo@school''\<rparr>"
          and post = "[]"
          and ss = "[\<lparr>user_id = 1, first_name = ''Ann'', last_name = ''Lee'', email = ''ann@school''\<rparr>]"
          and ts = "[\<lparr>user_id = 2, first_name = ''Bo'', last_name = ''Roy'', email = ''bo@school''\<rparr>]"
          and n = 3
          and p = "(Some 15)"
          and a = "(Some 1)"]
      by (elim conjE) assumption
    from imp hyp have "fst (send_inactivity_notifications (example_env\<lparr>last_transaction := (\<lambda>i. Inl (PyException ''db down''))\<rparr>) fresh_world) = except_Exception (PyException ''db down'')" by (rule mp)
    then show ?thesis by (simp add: except_Exception_def failure_record_def)
  qed
  have r14: "fst (update_point_caches True (example_env\<lparr>session_commit := Some (PyBaseException ''SystemExit'')\<rparr>) fresh_world)
     = Inl (PyBaseException ''SystemExit'')"
  proof -
    have hyp: "local_imports (example_env\<lparr>session_commit := Some (PyBaseException ''SystemExit'')\<rparr>) = None
        \<and> users_by_role (example_env\<lparr>session_commit := Some (PyBaseException ''SystemExit'')\<rparr>) ''student'' = Inr [\<lparr>user_id = 1, first_name = ''Ann'', last_name = ''Lee'', email = ''ann@school''\<rparr>]
        \<and> (\<forall>x \<in> set [\<lparr>user_id = 1, first_name = ''Ann'', last_name = ''Lee'', email = ''ann@school''\<rparr>]. \<exists>v. sum_points_student (example_env\<lparr>session_commit := Some (PyBaseException ''SystemExit'')\<rparr>) (user_id x) = Inr v)
        \<and> users_by_role (example_env\<lparr>session_commit := Some (PyBaseException ''SystemExit'')\<rparr>) ''teacher'' = Inr [\<lparr>user_id = 2, first_name = ''Bo'', last_name = ''Roy'', email = ''bo@school''\<rparr>]
        \<and> (\<forall>x \<in> set [\<lparr>user_id = 2, first_name = ''Bo'', last_name = ''Roy'', email = ''bo@school''\<rparr>]. \<exists>v. sum_points_teacher (example_env\<lparr>session_commit := Some (PyBaseException ''SystemExit'')\<rparr>) (user_id x) = Inr v)
        \<and> session_commit (example_env\<lparr>session_commit := Some (PyBaseException ''SystemExit'')\<rparr>) = Some (PyBaseException ''SystemExit'')"
      by (simp add: example_env_def update_point_caches_def update_point_caches_try_def
          generate_daily_statistics_def generate_daily_statistics_try_def
          send_inactivity_notifications_def send_inactivity_notifications_try_def Let_def)
    have imp: "(local_imports (example_env\<lparr>session_commit := Some (PyBaseException ''SystemExit'')\<rparr>) = None
        \<and> users_by_role (example_env\<lparr>session_commit := Some (PyBaseException ''SystemExit'')\<rparr>) ''student'' = Inr [\<lparr>user_id = 1, first_name = ''Ann'', last_name = ''Lee'', email = ''ann@school''\<rparr>]
        \<and> (\<forall>x \<in> set [\<lparr>user_id = 1, first_name = ''Ann'', last_name = ''Lee'', email = ''ann@school''\<rparr>]. \<exists>v. sum_points_student (example_env\<lparr>session_commit := Some (PyBaseException ''SystemExit'')\<rparr>) (user_id x) = Inr v)
        \<and> users_by_role (example_env\<lparr>session_commit := Some (PyBaseException ''SystemExit'')\<rparr>) ''teacher'' = Inr [\<lparr>user_id = 2, first_name = ''Bo'', last_name = ''Roy'', email = ''bo@school''\<rparr>]
        \<and> (\<forall>x \<in> set [\<lparr>user_id = 2, first_name = ''Bo'', last_name = ''Roy'', email = ''bo@school''\<rparr>]. \<exists>v. sum_points_teacher (example_env\<lparr>session_commit := Some (PyBaseException ''SystemExit'')\<rparr>) (user_id x) = Inr v)
        \<and> session_commit (example_env\<lparr>session_commit := Some (PyBaseException ''SystemExit'')\<rparr>) = Some (PyBaseException ''SystemExit''))
        \<longrightarrow> fst (update_point_caches True (example_env\<lparr>session_commit := Some (PyBaseException ''SystemExit'')\<rparr>) fresh_world) = except_Exception (PyBaseException ''SystemExit'')"
      using handler_exception_policy [where db = "(example_env\<lparr>session_commit := Some (PyBaseException ''SystemExit'')\<rparr>)"
          and w = fresh_world
          and e = "(PyBaseException ''SystemExit'')"
          and msg = "''db down''"
          and av = True
          and pre = "([]::user list)"
          and u = "\<lparr>user_id = 1, first_name = ''Ann'', last_name = ''Lee'', email = ''ann@school''\<rparr>"
          and post = "[]"
          and ss = "[\<lparr>user_id = 1, first_name = ''Ann'', last_name = ''Lee'', email = ''ann@school''\<rparr>]"
          and ts = "[\<lparr>user_id = 2, first_name = ''Bo'', last_name = ''Roy'', email = ''bo@school''\<rparr>]"
          and n = 3
          and p = "(Some 15)"
          and a = "(Some 1)"]
      by (elim conjE) assumption
    from imp hyp have "fst (update_point_caches True (example_env\<lparr>session_commit := Some (PyBaseException ''SystemExit'')\<rparr>) fresh_world) = except_Exception (PyBaseException ''SystemExit'')" by (rule mp)
    then show ?thesis by (simp add: except_Exception_def failure_record_def)
  qed
  have r15: "fst (generate_daily_statistics (example_env\<lparr>count_transactions := (\<lambda>since until. Inl (PyBaseException ''SystemExit''))\<rparr>) fresh_world)
     = Inl (PyBaseException ''SystemExit'')"
  proof -
    have hyp: "local_imports (example_env\<lparr>count_transactions := (\<lambda>since until. Inl (PyBaseException ''SystemExit''))\<rparr>) = None
        \<and> count_transactions (example_env\<lparr>count_transactions := (\<lambda>since until. Inl (PyBaseException ''SystemExit''))\<rparr>) (utcnow (example_env\<lparr>count_transactions := (\<lambda>since until. Inl (PyBaseException ''SystemExit''))\<rparr>) - timedelta_days 1) (utcnow (example_env\<lparr>count_transactions := (\<lambda>since until. Inl (PyBaseException ''SystemExit''))\<rparr>)) = Inl (PyBaseException ''SystemExit'')"
      by (simp add: example_env_def update_point_caches_def update_point_caches_try_def
          generate_daily_statistics_def generate_daily_statistics_try_def
          send_inactivity_notifications_def send_inactivity_notifications_try_def Let_def)
    have imp: "(local_imports (example_env\<lparr>count_transactions := (\<lambda>since until. Inl (PyBaseException ''SystemExit''))\<rparr>) = None
        \<and> count_transactions (example_env\<lparr>count_transactions := (\<lambda>since until. Inl (PyBaseException ''SystemExit''))\<rparr>) (utcnow (example_env\<lparr>count_transactions := (\<lambda>since until. Inl (PyBaseException ''SystemExit''))\<rparr>) - timedelta_days 1) (utcnow (example_env\<lparr>count_transactions := (\<lambda>since until. Inl (PyBaseException ''SystemExit''))\<rparr>)) = Inl (PyBaseException ''SystemExit''))
        \<longrightarrow> fst (generate_daily_statistics (example_env\<lparr>count_transactions := (\<lambda>since until. Inl (PyBaseException ''SystemExit''))\<rparr>) fresh_world) = except_Exception (PyBaseException ''SystemExit'')"
      using handler_exception_policy [where db = "(example_env\<lparr>count_transactions := (\<lambda>since until. Inl (PyBaseException ''SystemExit''))\<rparr>)"
          and w = fresh_world
          and e = "(PyBaseException ''SystemExit'')"
          and msg = "''db down''"
          and av = False
          and pre = "([]::user list)"
          and u = "\<lparr>user_id = 1, first_name = ''Ann'', last_name = ''Lee'', email = ''ann@school''\<rparr>"
          and post = "[]"
          and ss = "[\<lparr>user_id = 1, first_name = ''Ann'', last_name = ''Lee'', email = ''ann@school''\<rparr>]"
          and ts = "[\<lparr>user_id = 2, first_name = ''Bo'', last_name = ''Roy'', email = ''bo@school''\<rparr>]"
          and n = 3
          and p = "(Some 15)"
          and a = "(Some 1)"]
      by (elim conjE) assumption
    from imp hyp have "fst (generate_daily_statistics (example_env\<lparr>count_transactions := (\<lambda>since until. Inl (PyBaseException ''SystemExit''))\<rparr>) fresh_world) = except_Exception (PyBaseException ''SystemExit'')" by (rule mp)
    then show ?thesis by (simp add: except_Exception_def failure_record_def)
  qed
  have r16: "fst (send_inactivity_notifications (example_env\<lparr>last_transaction := (\<lambda>i. Inl (PyBaseException ''SystemExit''))\<rparr>) fresh_world)
     = Inl (PyBaseException ''SystemExit'')"
  proof -
    have hyp: "local_imports (example_env\<lparr>last_transaction := (\<lambda>i. Inl (PyBaseException ''SystemExit''))\<rparr>) = None
        \<and> users_by_role (example_env\<lparr>last_transaction := (\<lambda>i. Inl (PyBaseException ''SystemExit''))\<rparr>) ''teacher'' = Inr (([]::user list) @ \<lparr>user_id = 2, first_name = ''Bo'', last_name = ''Roy'', email = ''bo@school''\<rparr> # [])
        \<and> (\<forall>x \<in> set ([]::user list). \<exists>v. last_transaction (example_env\<lparr>last_transaction := (\<lambda>i. Inl (PyBaseException ''SystemExit''))\<rparr>) (user_id x) = Inr v)
        \<and> last_transaction (example_env\<lparr>last_transaction := (\<lambda>i. Inl (PyBaseException ''SystemExit''))\<rparr>) (user_id \<lparr>user_id = 2, first_name = ''Bo'', last_name = ''Roy'', email = ''bo@school''\<rparr>) = Inl (PyBaseException ''SystemExit'')"
      by (simp add: example_env_def update_point_caches_def update_point_caches_try_def
          generate_daily_statistics_def generate_daily_statistics_try_def
          send_inactivity_notifications_def send_inactivity_notifications_try_def Let_def)
    have imp: "(local_imports (example_env\<lparr>last_transaction := (\<lambda>i. Inl (PyBaseException ''SystemExit''))\<rparr>) = None
        \<and> users_by_role (example_env\<lparr>last_transaction := (\<lambda>i. Inl (PyBaseException ''SystemExit''))\<rparr>) ''teacher'' = Inr (([]::user list) @ \<lparr>user_id = 2, first_name = ''Bo'', last_name = ''Roy'', email = ''bo@school''\<rparr> # [])
        \<and> (\<forall>x \<in> set ([]::user list). \<exists>v. last_transaction (example_env\<lparr>last_transaction := (\<lambda>i. Inl (PyBaseException ''SystemExit''))\<rparr>) (user_id x) = Inr v)
        \<and> last_transaction (example_env\<lparr>last_transaction := (\<lambda>i. Inl (PyBaseException ''SystemExit''))\<rparr>) (user_id \<lparr>user_id = 2, first_name = ''Bo'', last_name = ''Roy'', email = ''bo@school''\<rparr>) = Inl (PyBaseException ''SystemExit''))
        \<longrightarrow> fst (send_inactivity_notifications (example_env\<lparr>last_transaction := (\<lambda>i. Inl (PyBaseException ''SystemExit''))\<rparr>) fresh_world) = except_Exception (PyBaseException ''SystemExit'')"
      using handler_exception_policy [where db = "(example_env\<lparr>last_transaction := (\<lambda>i. Inl (PyBaseException ''SystemExit''))\<rparr>)"
          and w = fresh_world
          and e = "(PyBaseException ''SystemExit'')"
          and msg = "''db down''"
          and av = False
          and pre = "([]::user list)"
          and u = "\<lparr>user_id = 2, first_name = ''Bo'', last_name = ''Roy'', email = ''bo@school''\<rparr>"
          and post = "[]"
          and ss = "[\<lparr>user_id = 1, first_name = ''Ann'', last_name = ''Lee'', email = ''ann@school''\<rparr>]"
          and ts = "[\<lparr>user_id = 2, first_name = ''Bo'', last_name = ''Roy'', email = ''bo@school''\<rparr>]"
          and n = 3
          and p = "(Some 15)"
          and a = "(Some 1)"]
      by (elim conjE) assumption
    from imp hyp have "fst (send_inactivity_notifications (example_env\<lparr>last_transaction := (\<lambda>i. Inl (PyBaseException ''SystemExit''))\<rparr>) fresh_world) = except_Exception (PyBaseException ''SystemExit'')" by (rule mp)
    then show ?thesis by (simp add: except_Exception_def failure_record_def)
  qed
  have r17: "fst (update_point_caches False (example_env\<lparr>session_commit := Some (PyException ''db down'')\<rparr>) fresh_world)
     = Inr (PDict [(''success'', PBool False), (''error'', PStr ''db down'')])"
  proof -
    have hyp: "local_imports (example_env\<lparr>session_commit := Some (PyException ''db down'')\<rparr>) = None
        \<and> fst (update_point_caches_try (example_env\<lparr>session_commit := Some (PyException ''db down'')\<rparr>) fresh_world) = Inl (PyException ''db down'')"
      by (simp add: example_env_def update_point_caches_def update_point_caches_try_def
          generate_daily_statistics_def generate_daily_statistics_try_def
          send_inactivity_notifications_def send_inactivity_notifications_try_def Let_def)
    have imp: "(local_imports (example_env\<lparr>session_commit := Some (PyException ''db down'')\<rparr>) = None
        \<and> fst (update_point_caches_try (example_env\<lparr>session_commit := Some (PyException ''db down'')\<rparr>) fresh_world) = Inl (PyException ''db down''))
        \<longrightarrow> fst (update_point_caches False (example_env\<lparr>session_commit := Some (PyException ''db down'')\<rparr>) fresh_world) = except_Exception (PyException ''db down'')"
      using handler_exception_policy [where db = "(example_env\<lparr>session_commit := Some (PyException ''db down'')\<rparr>)"
          and w = fresh_world
          and e = "(PyException ''db down'')"
          and msg = "''db down''"
          and av = False
          and pre = "([]::user list)"
          and u = "\<lparr>user_id = 1, first_name = ''Ann'', last_name = ''Lee'', email = ''ann@school''\<rparr>"
          and post = "[]"
          and ss = "[\<lparr>user_id = 1, first_name = ''Ann'', last_name = ''Lee'', email = ''ann@school''\<rparr>]"
          and ts = "[\<lparr>user_id = 2, first_name = ''Bo'', last_name = ''Roy'', email = ''bo@school''\<rparr>]"
          and n = 3
          and p = "(Some 15)"
          and a = "(Some 1)"]
      by (elim conjE) assumption
    from imp hyp have "fst (update_point_caches False (example_env\<lparr>session_commit := Some (PyException ''db down'')\<rparr>) fresh_world) = except_Exception (PyException ''db down'')" by (rule mp)
    then show ?thesis by (simp add: except_Exception_def failure_record_def)
  qed
  have r18: "fst (generate_daily_statistics (example_env\<lparr>count_transactions := (\<lambda>since until. Inl (PyException ''db down''))\<rparr>) fresh_world)
     = Inr (PDict [(''success'', PBool False), (''error'', PStr ''db down'')])"
  proof -
    have hyp: "local_imports (example_env\<lparr>count_transactions := (\<lambda>since until. Inl (PyException ''db down''))\<rparr>) = None
        \<and> fst (generate_daily_statistics_try (example_env\<lparr>count_transactions := (\<lambda>since until. Inl (PyException ''db down''))\<rparr>) fresh_world) = Inl (PyException ''db down'')"
      by (simp add: example_env_def update_point_caches_def update_point_caches_try_def
          generate_daily_statistics_def generate_daily_statistics_try_def
          send_inactivity_notifications_def send_inactivity_notifications_try_def Let_def)
    have imp: "(local_imports (example_env\<lparr>count_transactions := (\<lambda>since until. Inl (PyException ''db down''))\<rparr>) = None
        \<and> fst (generate_daily_statistics_try (example_env\<lparr>count_transactions := (\<lambda>since until. Inl (PyException ''db down''))\<rparr>) fresh_world) = Inl (PyException ''db down''))
        \<longrightarrow> fst (generate_daily_statistics (example_env\<lparr>count_transactions := (\<lambda>since until. Inl (PyException ''db down''))\<rparr>) fresh_world) = except_Exception (PyException ''db down'')"
      using handler_exception_policy [where db = "(example_env\<lparr>count_transactions := (\<lambda>since until. Inl (PyException ''db down''))\<rparr>)"
          and w = fresh_world
          and e = "(PyException ''db down'')"
          and msg = "''db down''"
          and av = False
          and pre = "([]::user list)"
          and u = "\<lparr>user_id = 1, first_name = ''Ann'', last_name = ''Lee'', email = ''ann@school''\<rparr>"
          and post = "[]"
          and ss = "[\<lparr>user_id = 1, first_name = ''Ann'', last_name = ''Lee'', email = ''ann@school''\<rparr>]"
          and ts = "[\<lparr>user_id = 2, first_name = ''Bo'', last_name = ''Roy'', email = ''bo@school''\<rparr>]"
          and n = 3
          and p = "(Some 15)"
          and a = "(Some 1)"]
      by (elim conjE) assumption
    from imp hyp have "fst (generate_daily_statistics (example_env\<lparr>count_transactions := (\<lambda>since until. Inl (PyException ''db down''))\<rparr>) fresh_world) = except_Exception (PyException ''db down'')" by (rule mp)
    then show ?thesis by (simp add: except_Exception_def failure_record_def)
  qed
  have r19: "fst (send_inactivity_notifications (example_env\<lparr>last_transaction := (\<lambda>i. Inl (PyException ''db down''))\<rparr>) fresh_world)
     = Inr (PDict [(''success'', PBool False), (''error'', PStr ''db down'')])"
  proof -
    have hyp: "local_imports (example_env\<lparr>last_transaction := (\<lambda>i. Inl (PyException ''db down''))\<rparr>) = None
        \<and> fst (send_inactivity_notifications_try (example_env\<lparr>last_transaction := (\<lambda>i. Inl (PyException ''db down''))\<rparr>) fresh_world) = Inl (PyException ''db down'')"
      by (simp add: example_env_def update_point_caches_def update_point_caches_try_def
          generate_daily_statistics_def generate_daily_statistics_try_def
          send_inactivity_notifications_def send_inactivity_notifications_try_def Let_def)
    have imp: "(local_imports (example_env\<lparr>last_transaction := (\<lambda>i. Inl (PyException ''db down''))\<rparr>) = None
        \<and> fst (send_inactivity_notifications_try (example_env\<lparr>last_transaction := (\<lambda>i. Inl (PyException ''db down''))\<rparr>) fresh_world) = Inl (PyException ''db down''))
        \<longrightarrow> fst (send_inactivity_notifications (example_env\<lparr>last_transaction := (\<lambda>i. Inl (PyException ''db down''))\<rparr>) fresh_world) = except_Exception (PyException ''db down'')"
      using handler_exception_policy [where db = "(example_env\<lparr>last_transaction := (\<lambda>i. Inl (PyException ''db down''))\<rparr>)"
          and w = fresh_world
          and e = "(PyException ''db down'')"
          and msg = "''db down''"
          and av = False
          and pre = "([]::user list)"
          and u = "\<lparr>user_id = 1, first_name = ''Ann'', last_name = ''Lee'', email = ''ann@school''\<rparr>"
          and post = "[]"
          and ss = "[\<lparr>user_id = 1, first_name = ''Ann'', last_name = ''Lee'', email = ''ann@school''\<rparr>]"
          and ts = "[\<lparr>user_id = 2, first_name = ''Bo'', last_name = ''Roy'', email = ''bo@school''\<rparr>]"
          and n = 3
          and p = "(Some 15)"
          and a = "(Some 1)"]
      by (elim conjE) assumption
    from imp hyp have "fst (send_inactivity_notifications (example_env\<lparr>last_transaction := (\<lambda>i. Inl (PyException ''db down''))\<rparr>) fresh_world) = except_Exception (PyException ''db down'')" by (rule mp)
    then show ?thesis by (simp add: except_Exception_def failure_record_def)
  qed
  have r20: "(local_imports (example_env\<lparr>session_commit := Some (PyBaseException ''SystemExit'')\<rparr>) = Some (PyBaseException ''SystemExit'') \<or> (\<exists>m. (PyBaseException ''SystemExit'') = PyBaseException m))"
  proof -
    have hyp: "fst (update_point_caches False (example_env\<lparr>session_commit := Some (PyBaseException ''SystemExit'')\<rparr>) fresh_world) = Inl (PyBaseException ''SystemExit'')"
      by (simp add: example_env_def update_point_caches_def update_point_caches_try_def
          generate_daily_statistics_def generate_daily_statistics_try_def
          send_inactivity_notifications_def send_inactivity_notifications_try_def Let_def)
    have imp: "(fst (update_point_caches False (example_env\<lparr>session_commit := Some (PyBaseException ''SystemExit'')\<rparr>) fresh_world) = Inl (PyBaseException ''SystemExit''))
        \<longrightarrow> local_imports (example_env\<lparr>session_commit := Some (PyBaseException ''SystemExit'')\<rparr>) = Some (PyBaseException ''SystemExit'') \<or> (\<exists>m. (PyBaseException ''SystemExit'') = PyBaseException m)"
      using handler_exception_policy [where db = "(example_env\<lparr>session_commit := Some (PyBaseException ''SystemExit'')\<rparr>)"
          and w = fresh_world
          and e = "(PyBaseException ''SystemExit'')"
          and msg = "''db down''"
          and av = False
          and pre = "([]::user list)"
          and u = "\<lparr>user_id = 1, first_name = ''Ann'', last_name = ''Lee'', email = ''ann@school''\<rparr>"
          and post = "[]"
          and ss = "[\<lparr>user_id = 1, first_name = ''Ann'', last_name = ''Lee'', email = ''ann@school''\<rparr>]"
          and ts = "[\<lparr>user_id = 2, first_name = ''Bo'', last_name = ''Roy'', email = ''bo@school''\<rparr>]"
          and n = 3
          and p = "(Some 15)"
          and a = "(Some 1)"]
      by (elim conjE) assumption
    from imp hyp have "local_imports (example_env\<lparr>session_commit := Some (PyBaseException ''SystemExit'')\<rparr>) = Some (PyBaseException ''SystemExit'') \<or> (\<exists>m. (PyBaseException ''SystemExit'') = PyBaseException m)" by (rule mp)
    then show ?thesis by (simp add: except_Exception_def failure_record_def)
  qed
  have r21: "(local_imports (example_env\<lparr>count_transactions := (\<lambda>since until. Inl (PyBaseException ''SystemExit''))\<rparr>) = Some (PyBaseException ''SystemExit'') \<or> (\<exists>m. (PyBaseException ''SystemExit'') = PyBaseException m))"
  proof -
    have hyp: "fst (generate_daily_statistics (example_env\<lparr>count_transactions := (\<lambda>since until. Inl (PyBaseException ''SystemExit''))\<rparr>) fresh_world) = Inl (PyBaseException ''SystemExit'')"
      by (simp add: example_env_def update_point_caches_def update_point_caches_try_def
          generate_daily_statistics_def generate_daily_statistics_try_def
          send_inactivity_notifications_def send_inactivity_notifications_try_def Let_def)
    have imp: "(fst (generate_daily_statistics (example_env\<lparr>count_transactions := (\<lambda>since until. Inl (PyBaseException ''SystemExit''))\<rparr>) fresh_world) = Inl (PyBaseException ''SystemExit''))
        \<longrightarrow> local_imports (example_env\<lparr>count_transactions := (\<lambda>since until. Inl (PyBaseException ''SystemExit''))\<rparr>) = Some (PyBaseException ''SystemExit'') \<or> (\<exists>m. (PyBaseException ''SystemExit'') = PyBaseException m)"
      using handler_exception_policy [where db = "(example_env\<lparr>count_transactions := (\<lambda>since until. Inl (PyBaseException ''SystemExit''))\<rparr>)"
          and w = fresh_world
          and e = "(PyBaseException ''SystemExit'')"
          and msg = "''db down''"
          and av = False
          and pre = "([]::user list)"
          and u = "\<lparr>user_id = 1, first_name = ''Ann'', last_name = ''Lee'', email = ''ann@school''\<rparr>"
          and post = "[]"
          and ss = "[\<lparr>user_id = 1, first_name = ''Ann'', last_name = ''Lee'', email = ''ann@school''\<rparr>]"
          and ts = "[\<lparr>user_id = 2, first_name = ''Bo'', last_name = ''Roy'', email = ''bo@school''\<rparr>]"
          and n = 3
          and p = "(Some 15)"
          and a = "(Some 1)"]
      by (elim conjE) assumption
    from imp hyp have "local_imports (example_env\<lparr>count_transactions := (\<lambda>since until. Inl (PyBaseException ''SystemExit''))\<rparr>) = Some (PyBaseException ''SystemExit'') \<or> (\<exists>m. (PyBaseException ''SystemExit'') = PyBaseException m)" by (rule mp)
    then show ?thesis by (simp add: except_Exception_def failure_record_def)
  qed
  have r22: "(local_imports (example_env\<lparr>last_transaction := (\<lambda>i. Inl (PyBaseException ''SystemExit''))\<rparr>) = Some (PyBaseException ''SystemExit'') \<or> (\<exists>m. (PyBaseException ''SystemExit'') = PyBaseException m))"
  proof -
    have hyp: "fst (send_inactivity_notifications (example_env\<lparr>last_transaction := (\<lambda>i. Inl (PyBaseException ''SystemExit''))\<rparr>) fresh_world) = Inl (PyBaseException ''SystemExit'')"
      by (simp add: example_env_def update_point_caches_def update_point_caches_try_def
          generate_daily_statistics_def generate_daily_statistics_try_def
          send_inactivity_notifications_def send_inactivity_notifications_try_def Let_def)
    have imp: "(fst (send_inactivity_notifications (example_env\<lparr>last_transaction := (\<lambda>i. Inl (PyBaseException ''SystemExit''))\<rparr>) fresh_world) = Inl (PyBaseException ''SystemExit''))
        \<longrightarrow> local_imports (example_env\<lparr>last_transaction := (\<lambda>i. Inl (PyBaseException ''SystemExit''))\<rparr>) = Some (PyBaseException ''SystemExit'') \<or> (\<exists>m. (PyBaseException ''SystemExit'') = PyBaseException m)"
      using handler_exception_policy [where db = "(example_env\<lparr>last_transaction := (\<lambda>i. Inl (PyBaseException ''SystemExit''))\<rparr>)"
          and w = fresh_world
          and e = "(PyBaseException ''SystemExit'')"
          and msg = "''db down''"
          and av = False
          and pre = "([]::user list)"
          and u = "\<lparr>user_id = 1, first_name = ''Ann'', last_name = ''Lee'', email = ''ann@school''\<rparr>"
          and post = "[]"
          and ss = "[\<lparr>user_id = 1, first_name = ''Ann'', last_name = ''Lee'', email = ''ann@school''\<rparr>]"
          and ts = "[\<lparr>user_id = 2, first_name = ''Bo'', last_name = ''Roy'', email = ''bo@school''\<rparr>]"
          and n = 3
          and p = "(Some 15)"
          and a = "(Some 1)"]
      by (elim conjE) assumption
    from imp hyp have "local_imports (example_env\<lparr>last_transaction := (\<lambda>i. Inl (PyBaseException ''SystemExit''))\<rparr>) = Some (PyBaseException ''SystemExit'') \<or> (\<exists>m. (PyBaseException ''SystemExit'') = PyBaseException m)" by (rule mp)
    then show ?thesis by (simp add: except_Exception_def failure_record_def)
  qed
  show ?thesis
    using r0 r1 r2 r3 r4 r5 r6 r7 r8 r9 r10 r11 r12 r13 r14 r15 r16 r17 r18 r19 r20 r21 r22
    by (intro conjI) assumption+
qed

text \<open>
  Claim C3 as stated fails: a \<^verbatim>\<open>KeyboardInterrupt\<close> raised by a query, and an
  \<^verbatim>\<open>ImportError\<close> raised by the imports before the \<^verbatim>\<open>try\<close> block, both reach the
  caller of the handler.
\<close>

theorem handler_propagates_counterexample:
  "fst (update_point_caches False
          (example_env\<lparr>users_by_role := (\<lambda>role. Inl (PyBaseException ''KeyboardInterrupt''))\<rparr>)
          fresh_world)
     = Inl (PyBaseException ''KeyboardInterrupt'')
   \<and> fst (generate_daily_statistics
          (example_env\<lparr>local_imports := Some (PyException ''ImportError'')\<rparr>) fresh_world)
     = Inl (PyException ''ImportError'')"
  by (simp add: update_point_caches_def update_point_caches_try_def
      generate_daily_statistics_def example_env_def)

text \<open>
  Claim C7. With the fallback objects, \<^verbatim>\<open>delay\<close> and \<^verbatim>\<open>apply_async\<close> of a decorated
  function, called on some arguments in some state, give the result and the final state
  that calling the function itself gives: the handler has run when the dispatch returns
  and its own result is what comes back. The same holds for the methods of
  \<^verbatim>\<open>DummyTask\<close> with respect to \<^verbatim>\<open>run\<close>.
\<close>

theorem synchronous_dispatch_inline:
  "delay (decorator f) args s = f args s
   \<and> apply_async (decorator f) args s = f args s
   \<and> call (decorator f) args s = f args s
   \<and> DummyCelery_task [f] = Inr (decorator f)
   \<and> DummyTask_delay run args s = run args s
   \<and> DummyTask_apply_async run args s = run args s
   \<and> DummyTask_call run args s = run args s"
  by (simp add: decorator_def DummyCelery_task_def DummyTask_delay_def
      DummyTask_apply_async_def DummyTask_call_def)

text \<open>Dispatching \<^verbatim>\<open>update_point_caches\<close> in the fallback mode returns its success record.\<close>

theorem synchronous_dispatch_inline_witness:
  "delay (decorator (\<lambda>(args::unit). update_point_caches False example_env)) () fresh_world
     = update_point_caches False example_env fresh_world
   \<and> fst (delay (decorator (\<lambda>(args::unit). update_point_caches False example_env)) () fresh_world)
     = Inr (PDict [(''success'', PBool True), (''timestamp'', PStr ''2024-01-02T00:05:00'')])"
proof -
  have v: "fst (update_point_caches False example_env fresh_world)
     = Inr (PDict [(''success'', PBool True), (''timestamp'', PStr ''2024-01-02T00:05:00'')])"
    by (simp add: update_point_caches_def update_point_caches_try_def example_env_def)
  from synchronous_dispatch_inline [where f = "\<lambda>(args::unit). update_point_caches False example_env"
      and args = "()" and s = fresh_world and run = "\<lambda>(args::unit). update_point_caches False example_env"] v
  show ?thesis by simp
qed




text \<open>
  Claim C10. On its success path \<^verbatim>\<open>update_point_caches\<close> returns a record with the
  keys \<^verbatim>\<open>success\<close> (true) and \<^verbatim>\<open>timestamp\<close>; the success records of
  \<^verbatim>\<open>generate_daily_statistics\<close> and \<^verbatim>\<open>send_inactivity_notifications\<close> have no
  key \<^verbatim>\<open>success\<close>; the record of the failure path of each handler has the keys
  \<^verbatim>\<open>success\<close> (false) and \<^verbatim>\<open>error\<close>.
\<close>

theorem result_record_shapes:
  "(local_imports db = None \<and> fst (update_point_caches_try db w) = Inr r
      \<longrightarrow> fst (update_point_caches av db w) = Inr r
          \<and> dict_keys r = [''success'', ''timestamp'']
          \<and> dict_get r ''success'' = Some (PBool True))
   \<and> (local_imports db = None \<and> fst (generate_daily_statistics_try db w) = Inr r
      \<longrightarrow> fst (generate_daily_statistics db w) = Inr r
          \<and> dict_keys r = [''timestamp'', ''date'', ''transactions_count'', ''total_points'',
                           ''active_teachers'', ''active_students'']
          \<and> dict_get r ''success'' = None)
   \<and> (local_imports db = None \<and> fst (send_inactivity_notifications_try db w) = Inr r
      \<longrightarrow> fst (send_inactivity_notifications db w) = Inr r
          \<and> dict_keys r = [''inactive_teacher_count'', ''teachers'']
          \<and> dict_get r ''success'' = None)
   \<and> (local_imports db = None \<and> fst (update_point_caches_try db w) = Inl (PyException msg)
      \<longrightarrow> fst (update_point_caches av db w) = Inr (failure_record msg))
   \<and> (local_imports db = None \<and> fst (generate_daily_statistics_try db w) = Inl (PyException msg)
      \<longrightarrow> fst (generate_daily_statistics db w) = Inr (failure_record msg))
   \<and> (local_imports db = None
        \<and> fst (send_inactivity_notifications_try db w) = Inl (PyException msg)
      \<longrightarrow> fst (send_inactivity_notifications db w) = Inr (failure_record msg))
   \<and> dict_keys (failure_record msg) = [''success'', ''error'']
   \<and> dict_get (failure_record msg) ''success'' = Some (PBool False)
   \<and> dict_get (failure_record msg) ''error'' = Some (PStr msg)"
proof -
  have a: "local_imports db = None \<and> fst (update_point_caches_try db w) = Inr r
      \<longrightarrow> fst (update_point_caches av db w) = Inr r
          \<and> dict_keys r = [''success'', ''timestamp'']
          \<and> dict_get r ''success'' = Some (PBool True)"
    using update_point_caches_returns [of db w r av] update_point_caches_try_shape [of db w r]
    by auto
  have b: "local_imports db = None \<and> fst (generate_daily_statistics_try db w) = Inr r
      \<longrightarrow> fst (generate_daily_statistics db w) = Inr r
          \<and> dict_keys r = [''timestamp'', ''date'', ''transactions_count'', ''total_points'',
                           ''active_teachers'', ''active_students'']
          \<and> dict_get r ''success'' = None"
    using generate_daily_statistics_returns [of db w r]
      generate_daily_statistics_try_shape [of db w r] dict_get_absent [of "''success''" r]
    by auto
  have c: "local_imports db = None \<and> fst (send_inactivity_notifications_try db w) = Inr r
      \<longrightarrow> fst (send_inactivity_notifications db w) = Inr r
          \<and> dict_keys r = [''inactive_teacher_count'', ''teachers'']
          \<and> dict_get r ''success'' = None"
    using send_inactivity_notifications_returns [of db w r]
      send_inactivity_notifications_try_shape [of db w r] dict_get_absent [of "''success''" r]
    by auto
  have d: "dict_keys (failure_record msg) = [''success'', ''error'']
     \<and> dict_get (failure_record msg) ''success'' = Some (PBool False)
     \<and> dict_get (failure_record msg) ''error'' = Some (PStr msg)"
    by (simp add: failure_record_def)
  show ?thesis
    using a b c d update_point_caches_catches [of db w msg av]
      generate_daily_statistics_catches [of db w msg]
      send_inactivity_notifications_catches [of db w msg]
    by blast
qed

text \<open>The three handlers on a sample database, and each with one failing query.\<close>

theorem result_record_shapes_witness:
  "fst (update_point_caches False example_env fresh_world)
     = Inr (PDict [(''success'', PBool True), (''timestamp'', PStr ''2024-01-02T00:05:00'')])
   \<and> dict_keys (PDict [(''timestamp'', PStr ''2024-01-02T00:05:00''), (''date'', PStr ''2024-01-01''),
         (''transactions_count'', PInt 3), (''total_points'', PInt 15),
         (''active_teachers'', PInt 1), (''active_students'', PInt 0)])
       = [''timestamp'', ''date'', ''transactions_count'', ''total_points'',
          ''active_teachers'', ''active_students'']
   \<and> fst (generate_daily_statistics example_env fresh_world)
     = Inr (PDict [(''timestamp'', PStr ''2024-01-02T00:05:00''), (''date'', PStr ''2024-01-01''),
         (''transactions_count'', PInt 3), (''total_points'', PInt 15),
         (''active_teachers'', PInt 1), (''active_students'', PInt 0)])
   \<and> fst (send_inactivity_notifications example_env fresh_world)
     = Inr (PDict [(''inactive_teacher_count'', PInt 1),
         (''teachers'', PList [PDict [(''id'', PInt 2), (''name'', PStr ''Bo Roy''),
            (''email'', PStr ''bo@school''), (''last_activity'', PNone)]])])
   \<and> fst (update_point_caches False
          (example_env\<lparr>session_commit := Some (PyException ''db down'')\<rparr>) fresh_world)
     = Inr (failure_record ''db down'')
   \<and> fst (generate_daily_statistics
          (example_env\<lparr>count_transactions := (\<lambda>since until. Inl (PyException ''db down''))\<rparr>)
          fresh_world)
     = Inr (failure_record ''db down'')
   \<and> fst (send_inactivity_notifications
          (example_env\<lparr>last_transaction := (\<lambda>i. Inl (PyException ''db down''))\<rparr>) fresh_world)
     = Inr (failure_record ''db down'')"
proof -
  let ?r1 = "PDict [(''success'', PBool True), (''timestamp'', PStr ''2024-01-02T00:05:00'')]"
  let ?r2 = "PDict [(''timestamp'', PStr ''2024-01-02T00:05:00''), (''date'', PStr ''2024-01-01''),
         (''transactions_count'', PInt 3), (''total_points'', PInt 15),
         (''active_teachers'', PInt 1), (''active_students'', PInt 0)]"
  let ?r3 = "PDict [(''inactive_teacher_count'', PInt 1),
         (''teachers'', PList [PDict [(''id'', PInt 2), (''name'', PStr ''Bo Roy''),
            (''email'', PStr ''bo@school''), (''last_activity'', PNone)]])]"
  let ?db1 = "example_env\<lparr>session_commit := Some (PyException ''db down'')\<rparr>"
  let ?db2 = "example_env\<lparr>count_transactions := (\<lambda>since until. Inl (PyException ''db down''))\<rparr>"
  let ?db3 = "example_env\<lparr>last_transaction := (\<lambda>i. Inl (PyException ''db down''))\<rparr>"
  have i0: "local_imports example_env = None" and i1: "local_imports ?db1 = None"
    and i2: "local_imports ?db2 = None" and i3: "local_imports ?db3 = None"
    by (simp_all add: example_env_def)
  have s1: "fst (update_point_caches_try example_env fresh_world) = Inr ?r1"
    by (simp add: update_point_caches_try_def example_env_def)
  have s2: "fst (generate_daily_statistics_try example_env fresh_world) = Inr ?r2"
    by (simp add: generate_daily_statistics_try_def Let_def example_env_def or0_def)
  have s3: "fst (send_inactivity_notifications_try example_env fresh_world) = Inr ?r3"
    by (simp add: send_inactivity_notifications_try_def Let_def example_env_def)
  have t1: "fst (update_point_caches_try ?db1 fresh_world) = Inl (PyException ''db down'')"
    by (simp add: update_point_caches_try_def example_env_def)
  have t2: "fst (generate_daily_statistics_try ?db2 fresh_world) = Inl (PyException ''db down'')"
    by (simp add: generate_daily_statistics_try_def Let_def example_env_def)
  have t3: "fst (send_inactivity_notifications_try ?db3 fresh_world) = Inl (PyException ''db down'')"
    by (simp add: send_inactivity_notifications_try_def Let_def example_env_def)
  have c1: "fst (update_point_caches False example_env fresh_world) = Inr ?r1"
    using result_record_shapes [where db = example_env and w = fresh_world and r = ?r1
        and av = False] i0 s1 by blast
  have c2: "fst (generate_daily_statistics example_env fresh_world) = Inr ?r2
      \<and> dict_keys ?r2 = [''timestamp'', ''date'', ''transactions_count'', ''total_points'',
          ''active_teachers'', ''active_students'']"
    using result_record_shapes [where db = example_env and w = fresh_world and r = ?r2]
      i0 s2 by blast
  have c3: "fst (send_inactivity_notifications example_env fresh_world) = Inr ?r3"
    using result_record_shapes [where db = example_env and w = fresh_world and r = ?r3]
      i0 s3 by blast
  have f1: "fst (update_point_caches False ?db1 fresh_world) = Inr (failure_record ''db down'')"
    using result_record_shapes [where db = ?db1 and w = fresh_world and msg = "''db down''"
        and av = False] i1 t1 by blast
  have f2: "fst (generate_daily_statistics ?db2 fresh_world) = Inr (failure_record ''db down'')"
    using result_record_shapes [where db = ?db2 and w = fresh_world and msg = "''db down''"]
      i2 t2 by blast
  have f3: "fst (send_inactivity_notifications ?db3 fresh_world) = Inr (failure_record ''db down'')"
    using result_record_shapes [where db = ?db3 and w = fresh_world and msg = "''db down''"]
      i3 t3 by blast
  show ?thesis using c1 c2 c3 f1 f2 f3 by blast
qed

end
